theory Spec2Isabelle
  imports Complex_Main "HOL-Library.AList"
begin

section \<open>The CI driver \<^verbatim>\<open>tools/demikernel_ci_new.py\<close>\<close>

text \<open>
  The script launches remote commands on a server and a client host, waits for them,
  reduces their exit codes to one verdict per stage and records the verdicts in a
  status dictionary. The embedding below follows the script function by function.

  \<^item> Everything the script does to the outside is an \<open>event\<close> appended to the
    \<open>trace\<close> of the \<open>world\<close>, in the order the script performs it.
  \<^item> What the outside answers (how a remote command ends, which directories exist,
    what the test catalog of \<^verbatim>\<open>ci.src\<close> holds and how a catalog test ends) is a
    parameter of type \<open>external\<close>: the theorems hold for every such answer.
  \<^item> A Python exception is a value \<open>Inl e\<close>; the world reached when it is raised is
    returned with it.
  \<^item> A Python \<^verbatim>\<open>dict\<close> is an association list in insertion order; \<^verbatim>\<open>d[k] = v\<close> is
    \<open>AList.update k v d\<close>, which replaces the value in place when the key is there
    and appends the pair otherwise, as the dictionary does.
  \<^item> The duration measured by \<^verbatim>\<open>timing\<close> is a difference of two readings of the
    clock in floating point; it only reaches the printed line and is left out of the
    model. The delay given to \<^verbatim>\<open>time.sleep\<close> is a \<open>py_float\<close>; the script only
    passes it on.
  \<^item> Writing a log file and starting a process are taken to succeed.
\<close>

subsection \<open>Exceptions, processes and the world\<close>

datatype py_error =
  IndexError
  | KeyError
  | ValueError
  | OverflowError
  | ExternalError string

text \<open>
  A Python \<^verbatim>\<open>float\<close>, as \<^verbatim>\<open>argparse\<close> with \<^verbatim>\<open>type=float\<close> hands it over: a finite number,
  one of the two infinities, or not a number.
\<close>

datatype py_float =
  Finite real
  | PosInf
  | NegInf
  | NaN

text \<open>The handle returned by \<^verbatim>\<open>subprocess.Popen\<close>.\<close>

record popen =
  pid :: nat
  args :: string

text \<open>What \<^verbatim>\<open>communicate()\<close> yields once the process has ended.\<close>

record completion =
  returncode :: int
  stdout :: string
  stderr :: string

text \<open>
  The events: a process started (its pid and its shell command), a sleep (the seconds
  slept), a log file written (path and content), the line
  \<^verbatim>\<open>[PASSED|FAILED] in ... ms name\<close> printed (verdict and name), the three steps of the
  rotation of the log directory, and a catalog test executed (its name).
\<close>

datatype event =
  Popen nat string
  | Sleep real
  | WriteFile string string
  | Print bool string
  | Rmtree string
  | Move string string
  | Mkdir string
  | Execute string

record world =
  next_pid :: nat
  trace :: "event list"

text \<open>The dictionary built by \<^verbatim>\<open>create_scaffolding\<close>, one field per key.\<close>

record scaffolding =
  sc_libos :: string
  sc_server_name :: string
  sc_server_ip :: string
  sc_client_name :: string
  sc_client_ip :: string
  sc_is_debug :: bool
  sc_is_sudo :: bool
  sc_repository :: string
  sc_delay :: py_float
  sc_config_path :: string
  sc_log_directory :: string

text \<open>The namespace returned by \<^verbatim>\<open>read_args\<close>, one field per option.\<close>

record arguments =
  arg_server :: string
  arg_client :: string
  arg_repository :: string
  arg_branch :: string
  arg_libos :: string
  arg_debug :: bool
  arg_delay :: py_float
  arg_enable_nfs :: bool
  arg_test_unit :: bool
  arg_test_system :: "string option"
  arg_server_addr :: string
  arg_client_addr :: string
  arg_config_path :: string
  arg_output_dir :: string

text \<open>
  The outside.
  \<^item> \<open>communicate\<close> tells how the process with a given pid and command line ends.
  \<^item> \<open>sleep_overflows\<close> tells whether the runtime finds a finite number of seconds too
    large, in absolute value, for its clock. CPython counts nanoseconds in 64 bits, so it
    refuses about \<open>9.2e9\<close> seconds and more; where exactly depends on the rounding of
    the product in floating point, which is why the bound is left to the outside.
  \<^item> \<open>isdir\<close> is the file system before the run.
  \<^item> \<open>get_ci_map\<close> is the exception raised by loading the catalog, if any;
    \<open>get_tests_to_run\<close> gives the names the catalog holds for the libos (or raises);
    \<open>execute\<close> builds the test of a given name and runs it, in the world reached so
    far, and gives its verdict (or raises). These three stand for the modules of
    \<^verbatim>\<open>ci.src\<close>, which are not part of the script: what a catalog test does on the hosts
    is summed up in the one event \<open>Execute name\<close>, so the \<open>Popen\<close>, \<open>Sleep\<close>,
    \<open>WriteFile\<close> and \<open>Print\<close> events of a trace are those of the script's own stages.
\<close>

record external =
  communicate :: "nat \<Rightarrow> string \<Rightarrow> completion"
  sleep_overflows :: "real \<Rightarrow> bool"
  isdir :: "string \<Rightarrow> bool"
  get_ci_map :: "py_error option"
  get_tests_to_run :: "scaffolding \<Rightarrow> py_error + string list"
  execute :: "scaffolding \<Rightarrow> string \<Rightarrow> world \<Rightarrow> py_error + bool"

definition emit :: "event \<Rightarrow> world \<Rightarrow> world" where
  "emit e w = w\<lparr>trace := trace w @ [e]\<rparr>"

definition subprocess_Popen :: "string \<Rightarrow> world \<Rightarrow> popen \<times> world" where
  "subprocess_Popen cmd w =
     (\<lparr>pid = next_pid w, args = cmd\<rparr>,
      emit (Popen (next_pid w) cmd) (w\<lparr>next_pid := Suc (next_pid w)\<rparr>))"

text \<open>
  What \<^verbatim>\<open>time.sleep\<close> does with its argument before it sleeps, in this order: not a
  number raises \<^verbatim>\<open>ValueError\<close>; an infinity, or a finite number too large for the clock,
  raises \<^verbatim>\<open>OverflowError\<close>; a negative number raises \<^verbatim>\<open>ValueError\<close>. Otherwise the
  seconds are slept.
\<close>

definition sleep_check :: "external \<Rightarrow> py_float \<Rightarrow> py_error + real" where
  "sleep_check X secs =
     (case secs of
        NaN \<Rightarrow> Inl ValueError
      | PosInf \<Rightarrow> Inl OverflowError
      | NegInf \<Rightarrow> Inl OverflowError
      | Finite r \<Rightarrow>
          if sleep_overflows X r then Inl OverflowError
          else if r < 0 then Inl ValueError
          else Inr r)"

definition time_sleep :: "external \<Rightarrow> py_float \<Rightarrow> world \<Rightarrow> (py_error + unit) \<times> world" where
  "time_sleep X secs w =
     (case sleep_check X secs of
        Inl e \<Rightarrow> (Inl e, w)
      | Inr r \<Rightarrow> (Inr (), emit (Sleep r) w))"

text \<open>The exit code a job ends with.\<close>

definition exit_code :: "external \<Rightarrow> popen \<Rightarrow> int" where
  "exit_code X j = returncode (communicate X (pid j) (args j))"

subsection \<open>Utilities\<close>

text \<open>
  The loop of \<^verbatim>\<open>wait_jobs2\<close> over \<^verbatim>\<open>jobs.items()\<close>: wait for the job, append
  \<^verbatim>\<open>(j.pid, j.returncode)\<close> to \<^verbatim>\<open>status\<close>, write the two log files.
\<close>

fun wait_loop ::
  "external \<Rightarrow> string \<Rightarrow> (string \<times> popen) list \<Rightarrow> (nat \<times> int) list \<Rightarrow> world
     \<Rightarrow> (nat \<times> int) list \<times> world" where
  "wait_loop X log_directory [] status w = (status, w)"
| "wait_loop X log_directory ((job_name, j) # jobs) status w =
     (let c = communicate X (pid j) (args j);
          status1 = status @ [(pid j, returncode c)];
          w1 = emit (WriteFile (log_directory @ ''/'' @ job_name @ ''.stdout.txt'') (stdout c)) w;
          w2 = emit (WriteFile (log_directory @ ''/'' @ job_name @ ''.stderr.txt'') (stderr c)) w1
      in wait_loop X log_directory jobs status1 w2)"

text \<open>
  \<^verbatim>\<open>wait_jobs\<close> returns the status list and, since \<^verbatim>\<open>jobs.clear()\<close> empties the
  caller's dictionary, the dictionary as it is afterwards.
\<close>

definition wait_jobs ::
  "external \<Rightarrow> string \<Rightarrow> (string \<times> popen) list \<Rightarrow> world
     \<Rightarrow> (nat \<times> int) list \<times> (string \<times> popen) list \<times> world" where
  "wait_jobs X log_directory jobs w =
     (let (status, w1) = wait_loop X log_directory jobs [] w;
          jobs1 = []
      in (status, jobs1, w1))"

definition wait_and_report ::
  "external \<Rightarrow> string \<Rightarrow> string \<Rightarrow> (string \<times> popen) list \<Rightarrow> bool \<Rightarrow> world
     \<Rightarrow> (py_error + bool) \<times> (string \<times> popen) list \<times> world" where
  "wait_and_report X name log_directory jobs all_pass w =
     (let (status, jobs1, w1) = wait_jobs X log_directory jobs w
      in if length status > 1 then
           (let passed = (if all_pass then snd (status ! 0) = 0 \<and> snd (status ! 1) = 0
                          else snd (status ! 0) = 0 \<or> snd (status ! 1) = 0)
            in (Inr passed, jobs1, emit (Print passed name) w1))
         else
           (case status of
              [] \<Rightarrow> (Inl IndexError, jobs1, w1)
            | s0 # _ \<Rightarrow>
                (let passed = (snd s0 = 0)
                 in (Inr passed, jobs1, emit (Print passed name) w1))))"

text \<open>Sequencing: an exception ends the computation, with the world reached so far.\<close>

definition then_do ::
  "(py_error + 'a) \<times> world \<Rightarrow> ('a \<Rightarrow> world \<Rightarrow> (py_error + 'b) \<times> world)
     \<Rightarrow> (py_error + 'b) \<times> world" where
  "then_do m f = (case m of (Inl e, w) \<Rightarrow> (Inl e, w) | (Inr a, w) \<Rightarrow> f a w)"

subsection \<open>Remote commands\<close>

text \<open>
  The shell line \<^verbatim>\<open>ssh HOST "bash -l -c 'CMD'"\<close> that each of the four launchers
  builds; \<open>CHR 0x22\<close> is the double quote, \<open>CHR 0x27\<close> the single quote and
  \<open>CHR 0x5C\<close> the backslash.
\<close>

definition ssh_cmd :: "string \<Rightarrow> string \<Rightarrow> string" where
  "ssh_cmd host cmd =
     ''ssh '' @ host @ '' '' @ [CHR 0x22] @ ''bash -l -c '' @ [CHR 0x27] @ cmd @ [CHR 0x27, CHR 0x22]"

definition debug_flag :: "bool \<Rightarrow> string" where
  "debug_flag is_debug = (if is_debug then ''DEBUG=yes'' else ''DEBUG=no'')"

definition sudo_cmd :: "bool \<Rightarrow> string" where
  "sudo_cmd is_sudo = (if is_sudo then ''sudo -E'' else [])"

definition remote_checkout_cmd :: "string \<Rightarrow> string \<Rightarrow> string" where
  "remote_checkout_cmd repository branch =
     ''cd '' @ repository @ '' && git pull origin && git checkout '' @ branch"

definition remote_checkout :: "string \<Rightarrow> string \<Rightarrow> string \<Rightarrow> world \<Rightarrow> popen \<times> world" where
  "remote_checkout host repository branch w =
     subprocess_Popen (ssh_cmd host (remote_checkout_cmd repository branch)) w"

definition remote_compile_cmd :: "string \<Rightarrow> string \<Rightarrow> bool \<Rightarrow> string" where
  "remote_compile_cmd repository target is_debug =
     ''cd '' @ repository @ '' && make PROFILER=yes '' @ debug_flag is_debug @ '' '' @ target"

definition remote_compile ::
  "string \<Rightarrow> string \<Rightarrow> string \<Rightarrow> bool \<Rightarrow> world \<Rightarrow> popen \<times> world" where
  "remote_compile host repository target is_debug w =
     subprocess_Popen (ssh_cmd host (remote_compile_cmd repository target is_debug)) w"

definition remote_run_cmd :: "string \<Rightarrow> bool \<Rightarrow> string \<Rightarrow> bool \<Rightarrow> string \<Rightarrow> string" where
  "remote_run_cmd repository is_debug target is_sudo config_path =
     ''cd '' @ repository @ '' && '' @ sudo_cmd is_sudo @ '' make CONFIG_PATH='' @ config_path
       @ '' '' @ debug_flag is_debug @ '' '' @ target"

definition remote_run ::
  "string \<Rightarrow> string \<Rightarrow> bool \<Rightarrow> string \<Rightarrow> bool \<Rightarrow> string \<Rightarrow> world \<Rightarrow> popen \<times> world" where
  "remote_run host repository is_debug target is_sudo config_path w =
     subprocess_Popen (ssh_cmd host (remote_run_cmd repository is_debug target is_sudo config_path)) w"

definition remote_cleanup_cmd :: "string \<Rightarrow> bool \<Rightarrow> string \<Rightarrow> string" where
  "remote_cleanup_cmd workspace is_sudo default_branch =
     ''cd '' @ workspace @ '' && '' @ sudo_cmd is_sudo @ '' make clean && git checkout ''
       @ default_branch @ '' && git clean -fdx''"

text \<open>No caller passes \<^verbatim>\<open>default_branch\<close>: it is always \<^verbatim>\<open>"dev"\<close>.\<close>

definition remote_cleanup :: "string \<Rightarrow> string \<Rightarrow> bool \<Rightarrow> world \<Rightarrow> popen \<times> world" where
  "remote_cleanup host workspace is_sudo w =
     subprocess_Popen (ssh_cmd host (remote_cleanup_cmd workspace is_sudo ''dev'')) w"

subsection \<open>Generic jobs\<close>

text \<open>
  Each stage builder fills its dictionary \<^verbatim>\<open>jobs\<close> and hands it to
  \<^verbatim>\<open>wait_and_report\<close>. For the three builders whose second job depends on
  \<^verbatim>\<open>enable_nfs\<close> the filling is a definition of its own (\<open>\<dots>_jobs\<close>), so that the
  dictionary can be spoken about.
\<close>

definition job_checkout_jobs ::
  "string \<Rightarrow> string \<Rightarrow> string \<Rightarrow> string \<Rightarrow> bool \<Rightarrow> world \<Rightarrow> (string \<times> popen) list \<times> world" where
  "job_checkout_jobs repository branch server client enable_nfs w =
     (let test_name = ''checkout'';
          (p, w1) = remote_checkout server repository branch w;
          jobs = AList.update (test_name @ ''-server-'' @ server) p []
      in if \<not> enable_nfs then
           (let (q, w2) = remote_checkout client repository branch w1
            in (AList.update (test_name @ ''-client-'' @ client) q jobs, w2))
         else (jobs, w1))"

definition job_checkout ::
  "external \<Rightarrow> string \<Rightarrow> string \<Rightarrow> string \<Rightarrow> string \<Rightarrow> bool \<Rightarrow> string \<Rightarrow> world
     \<Rightarrow> (py_error + bool) \<times> world" where
  "job_checkout X repository branch server client enable_nfs log_directory w =
     (let (jobs, w1) = job_checkout_jobs repository branch server client enable_nfs w;
          (r, jobs1, w2) = wait_and_report X ''checkout'' log_directory jobs True w1
      in (r, w2))"

definition compile_name :: "bool \<Rightarrow> string" where
  "compile_name is_debug = ''compile-'' @ (if is_debug then ''debug'' else ''release'')"

definition job_compile_jobs ::
  "string \<Rightarrow> string \<Rightarrow> bool \<Rightarrow> string \<Rightarrow> string \<Rightarrow> bool \<Rightarrow> world
     \<Rightarrow> (string \<times> popen) list \<times> world" where
  "job_compile_jobs repository libos is_debug server client enable_nfs w =
     (let test_name = compile_name is_debug;
          (p, w1) = remote_compile server repository (''all LIBOS='' @ libos) is_debug w;
          jobs = AList.update (test_name @ ''-server-'' @ server) p []
      in if \<not> enable_nfs then
           (let (q, w2) = remote_compile client repository (''all LIBOS='' @ libos) is_debug w1
            in (AList.update (test_name @ ''-client-'' @ client) q jobs, w2))
         else (jobs, w1))"

definition job_compile ::
  "external \<Rightarrow> string \<Rightarrow> string \<Rightarrow> bool \<Rightarrow> string \<Rightarrow> string \<Rightarrow> bool \<Rightarrow> string \<Rightarrow> world
     \<Rightarrow> (py_error + bool) \<times> world" where
  "job_compile X repository libos is_debug server client enable_nfs log_directory w =
     (let (jobs, w1) = job_compile_jobs repository libos is_debug server client enable_nfs w;
          (r, jobs1, w2) = wait_and_report X (compile_name is_debug) log_directory jobs True w1
      in (r, w2))"

text \<open>\<^verbatim>\<open>ARGS=\"...\"\<close>: the argument text between two backslash-quote pairs.\<close>

definition quoted_args :: "string \<Rightarrow> string" where
  "quoted_args a = ''ARGS='' @ [CHR 0x5C, CHR 0x22] @ a @ [CHR 0x5C, CHR 0x22]"

definition job_test_system_rust ::
  "external \<Rightarrow> string \<Rightarrow> string \<Rightarrow> string \<Rightarrow> string \<Rightarrow> bool \<Rightarrow> string \<Rightarrow> string \<Rightarrow> string
     \<Rightarrow> string \<Rightarrow> bool \<Rightarrow> bool \<Rightarrow> py_float \<Rightarrow> string \<Rightarrow> string \<Rightarrow> world
     \<Rightarrow> (py_error + bool) \<times> world" where
  "job_test_system_rust X test_alias test_name repo libos is_debug server client server_args
      client_args is_sudo all_pass delay config_path log_directory w =
     (let server_cmd = ''test-system-rust LIBOS='' @ libos @ '' TEST='' @ test_name @ '' ''
                         @ quoted_args server_args;
          client_cmd = ''test-system-rust LIBOS='' @ libos @ '' TEST='' @ test_name @ '' ''
                         @ quoted_args client_args;
          (p, w1) = remote_run server repo is_debug server_cmd is_sudo config_path w;
          jobs = AList.update (test_alias @ ''-server-'' @ server) p []
      in then_do (time_sleep X delay w1) (\<lambda>_ w2.
           (let (q, w3) = remote_run client repo is_debug client_cmd is_sudo config_path w2;
                jobs = AList.update (test_alias @ ''-client-'' @ client) q jobs;
                (r, jobs1, w4) = wait_and_report X test_alias log_directory jobs all_pass w3
            in (r, w4))))"

definition job_test_unit_rust ::
  "external \<Rightarrow> string \<Rightarrow> string \<Rightarrow> bool \<Rightarrow> string \<Rightarrow> string \<Rightarrow> bool \<Rightarrow> string \<Rightarrow> string
     \<Rightarrow> world \<Rightarrow> (py_error + bool) \<times> world" where
  "job_test_unit_rust X repo libos is_debug server client is_sudo config_path log_directory w =
     (let server_cmd = ''test-unit-rust LIBOS='' @ libos;
          test_name = ''unit-test'';
          (p, w1) = remote_run server repo is_debug server_cmd is_sudo config_path w;
          jobs = AList.update (test_name @ ''-server-'' @ server) p [];
          (r, jobs1, w2) = wait_and_report X test_name log_directory jobs True w1
      in (r, w2))"

definition tcp_server_args :: "string \<Rightarrow> string \<Rightarrow> string" where
  "tcp_server_args server_addr client_addr =
     ''--local-address '' @ server_addr @ '':12345 --remote-address '' @ client_addr @ '':23456''"

definition tcp_client_args :: "string \<Rightarrow> string \<Rightarrow> string" where
  "tcp_client_args server_addr client_addr =
     ''--local-address '' @ client_addr @ '':23456 --remote-address '' @ server_addr @ '':12345''"

definition tcp_cmd :: "string \<Rightarrow> string \<Rightarrow> string" where
  "tcp_cmd libos a =
     ''test-integration-rust TEST_INTEGRATION=tcp-test LIBOS='' @ libos @ '' '' @ quoted_args a"

definition job_test_integration_tcp_rust ::
  "external \<Rightarrow> string \<Rightarrow> string \<Rightarrow> bool \<Rightarrow> string \<Rightarrow> string \<Rightarrow> string \<Rightarrow> string \<Rightarrow> bool
     \<Rightarrow> string \<Rightarrow> string \<Rightarrow> world \<Rightarrow> (py_error + bool) \<times> world" where
  "job_test_integration_tcp_rust X repo libos is_debug server client server_addr client_addr
      is_sudo config_path log_directory w =
     (let server_args = tcp_server_args server_addr client_addr;
          client_args = tcp_client_args server_addr client_addr;
          server_cmd = tcp_cmd libos server_args;
          client_cmd = tcp_cmd libos client_args;
          test_name = ''integration-test'';
          (p, w1) = remote_run server repo is_debug server_cmd is_sudo config_path w;
          jobs = AList.update (test_name @ ''-server-'' @ server) p [];
          (q, w2) = remote_run client repo is_debug client_cmd is_sudo config_path w1;
          jobs = AList.update (test_name @ ''-client-'' @ client) q jobs;
          (r, jobs1, w3) = wait_and_report X test_name log_directory jobs True w2
      in (r, w3))"

definition pipe_cmd :: "string \<Rightarrow> string \<Rightarrow> string \<Rightarrow> string \<Rightarrow> string" where
  "pipe_cmd libos peer server_addr run_mode =
     ''test-integration-rust TEST_INTEGRATION=pipe-test LIBOS='' @ libos @ '' ''
       @ quoted_args (''--peer '' @ peer @ '' --pipe-name '' @ server_addr @ '':12345 --run-mode ''
                        @ run_mode)"

definition job_test_integration_pipe_rust ::
  "external \<Rightarrow> string \<Rightarrow> string \<Rightarrow> bool \<Rightarrow> string \<Rightarrow> string \<Rightarrow> string \<Rightarrow> string \<Rightarrow> py_float
     \<Rightarrow> bool \<Rightarrow> string \<Rightarrow> string \<Rightarrow> world \<Rightarrow> (py_error + bool) \<times> world" where
  "job_test_integration_pipe_rust X repo libos is_debug run_mode server client server_addr delay
      is_sudo config_path log_directory w =
     (let server_cmd = pipe_cmd libos ''server'' server_addr run_mode;
          client_cmd = pipe_cmd libos ''client'' server_addr run_mode;
          test_name = ''integration-test'' @ ''-'' @ run_mode;
          (p, w1) = remote_run server repo is_debug server_cmd is_sudo config_path w;
          jobs = AList.update (test_name @ ''-server-'' @ server) p []
      in if run_mode \<noteq> ''standalone'' then
           then_do (time_sleep X delay w1) (\<lambda>_ w2.
             (let (q, w3) = remote_run client repo is_debug client_cmd is_sudo config_path w2;
                  jobs = AList.update (test_name @ ''-client-'' @ client) q jobs;
                  (r, jobs1, w4) = wait_and_report X test_name log_directory jobs True w3
              in (r, w4)))
         else
           (let (r, jobs1, w2) = wait_and_report X test_name log_directory jobs True w1
            in (r, w2)))"

definition job_cleanup_jobs ::
  "string \<Rightarrow> string \<Rightarrow> string \<Rightarrow> bool \<Rightarrow> bool \<Rightarrow> world \<Rightarrow> (string \<times> popen) list \<times> world" where
  "job_cleanup_jobs repository server client is_sudo enable_nfs w =
     (let test_name = ''cleanup'';
          (p, w1) = remote_cleanup server repository is_sudo w;
          jobs = AList.update (test_name @ ''-server-'' @ server) p []
      in if \<not> enable_nfs then
           (let (q, w2) = remote_cleanup client repository is_sudo w1
            in (AList.update (test_name @ ''-client-'' @ client @ ''-'') q jobs, w2))
         else (jobs, w1))"

definition job_cleanup ::
  "external \<Rightarrow> string \<Rightarrow> string \<Rightarrow> string \<Rightarrow> bool \<Rightarrow> bool \<Rightarrow> string \<Rightarrow> world
     \<Rightarrow> (py_error + bool) \<times> world" where
  "job_cleanup X repository server client is_sudo enable_nfs log_directory w =
     (let (jobs, w1) = job_cleanup_jobs repository server client is_sudo enable_nfs w;
          (r, jobs1, w2) = wait_and_report X ''cleanup'' log_directory jobs True w1
      in (r, w2))"

subsection \<open>The pipeline\<close>

text \<open>\<^verbatim>\<open>status[k]\<close> read: a missing key raises \<^verbatim>\<open>KeyError\<close>.\<close>

definition getitem :: "(string \<times> bool) list \<Rightarrow> string \<Rightarrow> py_error + bool" where
  "getitem status k = (case map_of status k of None \<Rightarrow> Inl KeyError | Some v \<Rightarrow> Inr v)"

text \<open>
  \<^verbatim>\<open>status["checkout"] and status["compile"]\<close>: the second entry is read only when the
  first is true.
\<close>

definition checkout_and_compile :: "(string \<times> bool) list \<Rightarrow> py_error + bool" where
  "checkout_and_compile status =
     (case getitem status ''checkout'' of
        Inl e \<Rightarrow> Inl e
      | Inr c \<Rightarrow> if c then getitem status ''compile'' else Inr False)"

definition create_scaffolding ::
  "string \<Rightarrow> string \<Rightarrow> string \<Rightarrow> string \<Rightarrow> string \<Rightarrow> bool \<Rightarrow> bool \<Rightarrow> string \<Rightarrow> py_float \<Rightarrow> string
     \<Rightarrow> string \<Rightarrow> scaffolding" where
  "create_scaffolding libos server_name server_addr client_name client_addr is_debug is_sudo
      repository delay config_path log_directory =
     \<lparr>sc_libos = libos, sc_server_name = server_name, sc_server_ip = server_addr,
      sc_client_name = client_name, sc_client_ip = client_addr, sc_is_debug = is_debug,
      sc_is_sudo = is_sudo, sc_repository = repository, sc_delay = delay,
      sc_config_path = config_path, sc_log_directory = log_directory\<rparr>"

text \<open>
  The name of the log directory, \<^verbatim>\<open>"{}-{}-{}".format(...).replace("/", "_")\<close> under
  \<^verbatim>\<open>output_dir\<close>, and its rotation: the last run is kept as \<^verbatim>\<open>.old\<close>.
\<close>

definition log_directory_name :: "string \<Rightarrow> string \<Rightarrow> string \<Rightarrow> bool \<Rightarrow> string" where
  "log_directory_name output_dir libos branch is_debug =
     output_dir @ ''/''
       @ map (\<lambda>c. if c = CHR ''/'' then CHR ''_'' else c)
           (libos @ ''-'' @ branch @ ''-'' @ (if is_debug then ''debug'' else ''release''))"

definition make_log_directory :: "external \<Rightarrow> string \<Rightarrow> world \<Rightarrow> world" where
  "make_log_directory X log_directory w =
     (let w1 = (if isdir X log_directory then
                  (let old_dir = log_directory @ ''.old'';
                       w0 = (if isdir X old_dir then emit (Rmtree old_dir) w else w)
                   in emit (Move log_directory old_dir) w0)
                else w)
      in emit (Mkdir log_directory) w1)"

text \<open>STEP 2: compile, when the checkout passed.\<close>

definition run_pipeline_step2 ::
  "external \<Rightarrow> string \<Rightarrow> string \<Rightarrow> bool \<Rightarrow> string \<Rightarrow> string \<Rightarrow> bool \<Rightarrow> string
     \<Rightarrow> (string \<times> bool) list \<Rightarrow> world \<Rightarrow> (py_error + (string \<times> bool) list) \<times> world" where
  "run_pipeline_step2 X repository libos is_debug server client enable_nfs log_directory status w =
     (case getitem status ''checkout'' of
        Inl e \<Rightarrow> (Inl e, w)
      | Inr c \<Rightarrow>
          if c then
            then_do (job_compile X repository libos is_debug server client enable_nfs log_directory w)
              (\<lambda>b w1. (Inr (AList.update ''compile'' b status), w1))
          else (Inr status, w))"

text \<open>
  STEP 3: the unit tests, and after them the TCP integration test for \<^verbatim>\<open>catnap\<close> or
  the five runs of the pipe integration test for \<^verbatim>\<open>catmem\<close>.
\<close>

definition run_pipeline_step3 ::
  "external \<Rightarrow> string \<Rightarrow> string \<Rightarrow> bool \<Rightarrow> string \<Rightarrow> string \<Rightarrow> bool \<Rightarrow> string \<Rightarrow> string
     \<Rightarrow> py_float \<Rightarrow> bool \<Rightarrow> string \<Rightarrow> string
     \<Rightarrow> (string \<times> bool) list \<Rightarrow> world \<Rightarrow> (py_error + (string \<times> bool) list) \<times> world" where
  "run_pipeline_step3 X repository libos is_debug server client test_unit server_addr client_addr
      delay is_sudo config_path log_directory status w =
     (if test_unit then
        (case checkout_and_compile status of
           Inl e \<Rightarrow> (Inl e, w)
         | Inr ok \<Rightarrow>
             if ok then
               then_do (job_test_unit_rust X repository libos is_debug server client is_sudo
                          config_path log_directory w)
                 (\<lambda>b w1.
                   let status = AList.update ''unit_tests'' b status
                   in if libos = ''catnap'' then
                        then_do (job_test_integration_tcp_rust X repository libos is_debug server
                                   client server_addr client_addr is_sudo config_path log_directory w1)
                          (\<lambda>b w2. (Inr (AList.update ''integration_tests'' b status), w2))
                      else if libos = ''catmem'' then
                        then_do (job_test_integration_pipe_rust X repository libos is_debug
                                   ''standalone'' server client server_addr delay is_sudo
                                   config_path log_directory w1)
                          (\<lambda>b w2. let status = AList.update ''integration_tests'' b status in
                        then_do (job_test_integration_pipe_rust X repository libos is_debug
                                   ''push-wait'' server client server_addr delay is_sudo
                                   config_path log_directory w2)
                          (\<lambda>b w3. let status = AList.update ''integration_tests'' b status in
                        then_do (job_test_integration_pipe_rust X repository libos is_debug
                                   ''pop-wait'' server client server_addr delay is_sudo
                                   config_path log_directory w3)
                          (\<lambda>b w4. let status = AList.update ''integration_tests'' b status in
                        then_do (job_test_integration_pipe_rust X repository libos is_debug
                                   ''push-wait-async'' server client server_addr delay is_sudo
                                   config_path log_directory w4)
                          (\<lambda>b w5. let status = AList.update ''integration_tests'' b status in
                        then_do (job_test_integration_pipe_rust X repository libos is_debug
                                   ''pop-wait-async'' server client server_addr delay is_sudo
                                   config_path log_directory w5)
                          (\<lambda>b w6. (Inr (AList.update ''integration_tests'' b status), w6))))))
                      else (Inr status, w1))
             else (Inr status, w))
      else (Inr status, w))"

text \<open>
  STEP 4: the system tests. The loop records each test under its own name;
  \<^verbatim>\<open>create_test_instance(...).execute()\<close> is the \<open>execute\<close> of the outside.
\<close>

fun run_tests ::
  "external \<Rightarrow> scaffolding \<Rightarrow> string list \<Rightarrow> (string \<times> bool) list \<Rightarrow> world
     \<Rightarrow> (py_error + (string \<times> bool) list) \<times> world" where
  "run_tests X sc [] status w = (Inr status, w)"
| "run_tests X sc (test_name # test_names) status w =
     (case execute X sc test_name w of
        Inl e \<Rightarrow> (Inl e, emit (Execute test_name) w)
      | Inr b \<Rightarrow>
          run_tests X sc test_names (AList.update test_name b status) (emit (Execute test_name) w))"

text \<open>
  \<^verbatim>\<open>test_system\<close> is \<^verbatim>\<open>None\<close> when the option is not given; \<^verbatim>\<open>if test_system:\<close>
  holds for a non-empty string only.
\<close>

definition run_pipeline_step4 ::
  "external \<Rightarrow> string \<Rightarrow> string \<Rightarrow> bool \<Rightarrow> string \<Rightarrow> string \<Rightarrow> string option \<Rightarrow> string
     \<Rightarrow> string \<Rightarrow> py_float \<Rightarrow> bool \<Rightarrow> string \<Rightarrow> string
     \<Rightarrow> (string \<times> bool) list \<Rightarrow> world \<Rightarrow> (py_error + (string \<times> bool) list) \<times> world" where
  "run_pipeline_step4 X repository libos is_debug server client test_system server_addr client_addr
      delay is_sudo config_path log_directory status w =
     (case test_system of
        None \<Rightarrow> (Inr status, w)
      | Some selector \<Rightarrow>
          if selector = [] then (Inr status, w)
          else
            (case checkout_and_compile status of
               Inl e \<Rightarrow> (Inl e, w)
             | Inr ok \<Rightarrow>
                 if ok then
                   (let sc = create_scaffolding libos server server_addr client client_addr
                               is_debug is_sudo repository delay config_path log_directory
                    in case get_ci_map X of
                         Some e \<Rightarrow> (Inl e, w)
                       | None \<Rightarrow>
                           (case (if selector = ''all'' then get_tests_to_run X sc
                                  else Inr [selector]) of
                              Inl e \<Rightarrow> (Inl e, w)
                            | Inr test_names \<Rightarrow> run_tests X sc test_names status w))
                 else (Inr status, w)))"

definition run_pipeline ::
  "external \<Rightarrow> string \<Rightarrow> string \<Rightarrow> string \<Rightarrow> bool \<Rightarrow> string \<Rightarrow> string \<Rightarrow> bool \<Rightarrow> string option
     \<Rightarrow> string \<Rightarrow> string \<Rightarrow> py_float \<Rightarrow> string \<Rightarrow> string \<Rightarrow> bool \<Rightarrow> world
     \<Rightarrow> (py_error + (string \<times> bool) list) \<times> world" where
  "run_pipeline X repository branch libos is_debug server client test_unit test_system server_addr
      client_addr delay config_path output_dir enable_nfs w =
     (let is_sudo = (libos = ''catnip'' \<or> libos = ''catpowder'' \<or> libos = ''catloop'');
          status = [];
          log_directory = log_directory_name output_dir libos branch is_debug;
          w0 = make_log_directory X log_directory w
      in then_do (job_checkout X repository branch server client enable_nfs log_directory w0)
           (\<lambda>b w1. let status = AList.update ''checkout'' b status in
         then_do (run_pipeline_step2 X repository libos is_debug server client enable_nfs
                    log_directory status w1)
           (\<lambda>status w2.
         then_do (run_pipeline_step3 X repository libos is_debug server client test_unit
                    server_addr client_addr delay is_sudo config_path log_directory status w2)
           (\<lambda>status w3.
         then_do (run_pipeline_step4 X repository libos is_debug server client test_system
                    server_addr client_addr delay is_sudo config_path log_directory status w3)
           (\<lambda>status w4.
         then_do (job_cleanup X repository server client is_sudo enable_nfs log_directory w4)
           (\<lambda>b w5. (Inr (AList.update ''cleanup'' b status), w5)))))))"

text \<open>
  \<^verbatim>\<open>main\<close>, from the parsed arguments on: the value handed to \<^verbatim>\<open>sys.exit\<close>, or the
  exception that leaves the program.
\<close>

definition main :: "external \<Rightarrow> arguments \<Rightarrow> world \<Rightarrow> (py_error + int) \<times> world" where
  "main X a w =
     then_do (run_pipeline X (arg_repository a) (arg_branch a) (arg_libos a) (arg_debug a)
                (arg_server a) (arg_client a) (arg_test_unit a) (arg_test_system a)
                (arg_server_addr a) (arg_client_addr a) (arg_delay a) (arg_config_path a)
                (arg_output_dir a) (arg_enable_nfs a) w)
       (\<lambda>status w1. (Inr (if False \<in> set (map snd status) then - 1 else 0), w1))"

subsection \<open>Worlds for the examples\<close>

text \<open>The bound of a clock that counts nanoseconds in 64 bits.\<close>

definition clock_overflows :: "real \<Rightarrow> bool" where
  "clock_overflows r = (2 ^ 63 \<le> \<bar>r\<bar> * 10 ^ 9)"

text \<open>An outside where every remote command ends with exit code \<open>rc\<close> and nothing is
  printed, no directory exists, and the catalog is empty.\<close>

definition all_exit :: "int \<Rightarrow> external" where
  "all_exit rc =
     \<lparr>communicate = (\<lambda>p c. \<lparr>returncode = rc, stdout = [], stderr = []\<rparr>),
      sleep_overflows = clock_overflows,
      isdir = (\<lambda>d. False),
      get_ci_map = None,
      get_tests_to_run = (\<lambda>sc. Inr []),
      execute = (\<lambda>sc n w. Inr True)\<rparr>"

text \<open>An outside where the command started with pid \<open>p0\<close> ends with exit code 1 and
  every other one with 0. The first process of a run from \<open>start\<close> has pid 100.\<close>

definition fails_at :: "nat \<Rightarrow> external" where
  "fails_at p0 =
     \<lparr>communicate = (\<lambda>p c. \<lparr>returncode = (if p = p0 then 1 else 0), stdout = [], stderr = []\<rparr>),
      sleep_overflows = clock_overflows,
      isdir = (\<lambda>d. False),
      get_ci_map = None,
      get_tests_to_run = (\<lambda>sc. Inr []),
      execute = (\<lambda>sc n w. Inr True)\<rparr>"

definition example_args :: arguments where
  "example_args =
     \<lparr>arg_server = ''srv'', arg_client = ''cli'', arg_repository = ''repo'', arg_branch = ''main'',
      arg_libos = ''catnap'', arg_debug = False, arg_delay = Finite 1, arg_enable_nfs = False,
      arg_test_unit = False, arg_test_system = None, arg_server_addr = ''10.0.0.1'',
      arg_client_addr = ''10.0.0.2'', arg_config_path = ''cfg'', arg_output_dir = ''out''\<rparr>"

definition start :: world where
  "start = \<lparr>next_pid = 100, trace = []\<rparr>"


definition catnip_run :: "(py_error + (string \<times> bool) list) \<times> world" where
  "catnip_run =
     run_pipeline (all_exit 0) ''repo'' ''main'' ''catnip'' False ''srv'' ''cli'' True None
       ''10.0.0.1'' ''10.0.0.2'' (Finite 1) ''cfg'' ''out'' True start"

subsection \<open>Vocabulary of the properties\<close>

text \<open>The log files written while waiting for a job set, in order.\<close>

definition log_events :: "external \<Rightarrow> string \<Rightarrow> (string \<times> popen) list \<Rightarrow> event list" where
  "log_events X d jobs =
     concat (map (\<lambda>(n, j).
       [WriteFile (d @ ''/'' @ n @ ''.stdout.txt'') (stdout (communicate X (pid j) (args j))),
        WriteFile (d @ ''/'' @ n @ ''.stderr.txt'') (stderr (communicate X (pid j) (args j)))])
       jobs)"

text \<open>The status list of a job set: pid and exit code of each job, in order.\<close>

definition statuses :: "external \<Rightarrow> (string \<times> popen) list \<Rightarrow> (nat \<times> int) list" where
  "statuses X jobs = map (\<lambda>(n, j). (pid j, exit_code X j)) jobs"

text \<open>The command lines of the processes started in a stretch of the trace, in order.\<close>

fun launched :: "event list \<Rightarrow> string list" where
  "launched [] = []"
| "launched (Popen p c # evs) = c # launched evs"
| "launched (e # evs) = launched evs"


text \<open>The events added to the trace between the world \<open>w\<close> and the later world \<open>w1\<close>.\<close>

definition since :: "world \<Rightarrow> world \<Rightarrow> event list" where
  "since w w1 = drop (length (trace w)) (trace w1)"


text \<open>
  The four shapes of a command started by the stages of a run: a checkout, a compile, a
  run of some make target under the elevation flag \<open>is_sudo\<close>, a cleanup under that flag.
\<close>

definition expected_command ::
  "string \<Rightarrow> string \<Rightarrow> string \<Rightarrow> bool \<Rightarrow> string \<Rightarrow> bool \<Rightarrow> string \<Rightarrow> bool" where
  "expected_command repository branch libos is_debug config_path is_sudo c =
     ((\<exists>host. c = ssh_cmd host (remote_checkout_cmd repository branch))
      \<or> (\<exists>host. c = ssh_cmd host (remote_compile_cmd repository (''all LIBOS='' @ libos) is_debug))
      \<or> (\<exists>host target. c = ssh_cmd host (remote_run_cmd repository is_debug target is_sudo config_path))
      \<or> (\<exists>host. c = ssh_cmd host (remote_cleanup_cmd repository is_sudo ''dev'')))"

text \<open>From \<open>w\<close> to \<open>w1\<close> the trace only grows, and every command started satisfies \<open>P\<close>.\<close>

definition launches_only :: "(string \<Rightarrow> bool) \<Rightarrow> world \<Rightarrow> world \<Rightarrow> bool" where
  "launches_only P w w1 = (\<exists>evs. trace w1 = trace w @ evs \<and> list_all P (launched evs))"

section \<open>Properties\<close>

subsection \<open>The waiter\<close>

lemma wait_loop_eq:
  "wait_loop X d jobs status w =
     (status @ statuses X jobs, w\<lparr>trace := trace w @ log_events X d jobs\<rparr>)"
proof (induction jobs arbitrary: status w)
  case Nil
  show ?case by (simp add: statuses_def log_events_def)
next
  case (Cons p jobs)
  obtain n j where p: "p = (n, j)" by (cases p)
  show ?case
    unfolding p by (simp add: Cons.IH Let_def emit_def statuses_def log_events_def exit_code_def)
qed

lemma wait_jobs_eq:
  "wait_jobs X d jobs w = (statuses X jobs, [], w\<lparr>trace := trace w @ log_events X d jobs\<rparr>)"
  by (simp add: wait_jobs_def wait_loop_eq)

lemma wait_and_report_Nil:
  "wait_and_report X name d [] all_pass w = (Inl IndexError, [], w)"
  by (simp add: wait_and_report_def wait_jobs_eq statuses_def log_events_def)

lemma wait_and_report_one:
  "wait_and_report X name d [(n, j)] all_pass w =
     (Inr (exit_code X j = 0), [],
      w\<lparr>trace := trace w @ log_events X d [(n, j)] @ [Print (exit_code X j = 0) name]\<rparr>)"
  by (simp add: wait_and_report_def wait_jobs_eq statuses_def emit_def Let_def)

lemma wait_and_report_more:
  "wait_and_report X name d ((n1, j1) # (n2, j2) # jobs) all_pass w =
     (Inr (if all_pass then exit_code X j1 = 0 \<and> exit_code X j2 = 0
           else exit_code X j1 = 0 \<or> exit_code X j2 = 0), [],
      w\<lparr>trace := trace w @ log_events X d ((n1, j1) # (n2, j2) # jobs)
             @ [Print (if all_pass then exit_code X j1 = 0 \<and> exit_code X j2 = 0
                       else exit_code X j1 = 0 \<or> exit_code X j2 = 0) name]\<rparr>)"
  by (simp add: wait_and_report_def wait_jobs_eq statuses_def emit_def Let_def)

text \<open>
  C1. A job set of one job passes iff that job's exit code is 0. A job set of two jobs
  passes, under \<open>all_pass\<close>, iff both exit codes are 0, and otherwise iff at least
  one of them is 0.
\<close>

theorem wait_and_report_verdict:
  "fst (wait_and_report X name d [(n, j)] all_pass w) = Inr (exit_code X j = 0)
   \<and> fst (wait_and_report X name d [(n1, j1), (n2, j2)] True w)
       = Inr (exit_code X j1 = 0 \<and> exit_code X j2 = 0)
   \<and> fst (wait_and_report X name d [(n1, j1), (n2, j2)] False w)
       = Inr (exit_code X j1 = 0 \<or> exit_code X j2 = 0)"
  by (simp add: wait_and_report_one wait_and_report_more)

text \<open>
  C6. Waiting for a job set that is not empty returns a verdict and leaves the jobs
  dictionary empty, whatever the verdict is.
\<close>

theorem wait_and_report_drains:
  assumes "jobs \<noteq> []"
  shows "\<exists>passed w1. wait_and_report X name d jobs all_pass w = (Inr passed, [], w1)"
proof (cases jobs)
  case Nil
  with assms show ?thesis by simp
next
  case (Cons p ps)
  obtain n1 j1 where p: "p = (n1, j1)" by (cases p)
  show ?thesis
  proof (cases ps)
    case Nil
    with Cons p show ?thesis by (simp add: wait_and_report_one)
  next
    case (Cons q qs)
    obtain n2 j2 where q: "q = (n2, j2)" by (cases q)
    from \<open>jobs = p # ps\<close> Cons p q show ?thesis
      by (simp add: wait_and_report_more)
  qed
qed

theorem wait_and_report_drains_witness:
  "[(''a'', \<lparr>pid = 1, args = ''x''\<rparr>), (''b'', \<lparr>pid = 2, args = ''y''\<rparr>)] \<noteq> []
   \<and> (\<exists>passed w1.
        wait_and_report (all_exit 1) ''s'' ''logs''
          [(''a'', \<lparr>pid = 1, args = ''x''\<rparr>), (''b'', \<lparr>pid = 2, args = ''y''\<rparr>)] True start
        = (Inr passed, [], w1))"
  using wait_and_report_drains
    [of "[(''a'', \<lparr>pid = 1, args = ''x''\<rparr>), (''b'', \<lparr>pid = 2, args = ''y''\<rparr>)]"
        "all_exit 1" "''s''" "''logs''" True start]
  by simp

text \<open>
  C10. With an empty jobs dictionary the status list is empty and \<^verbatim>\<open>status[0]\<close>
  raises \<^verbatim>\<open>IndexError\<close>: no verdict is returned and nothing is printed. This is the
  only way for the waiter to raise: it raises iff the dictionary is empty.
\<close>

theorem wait_and_report_empty:
  "wait_and_report X name d [] all_pass w = (Inl IndexError, [], w)
   \<and> ((\<exists>e. fst (wait_and_report X name d jobs all_pass w) = Inl e) = (jobs = []))"
proof -
  have "(\<exists>e. fst (wait_and_report X name d jobs all_pass w) = Inl e) = (jobs = [])"
  proof (cases jobs)
    case Nil
    then show ?thesis by (simp add: wait_and_report_Nil)
  next
    case (Cons p ps)
    obtain n1 j1 where p: "p = (n1, j1)" by (cases p)
    show ?thesis
    proof (cases ps)
      case Nil
      with Cons p show ?thesis by (simp add: wait_and_report_one)
    next
      case (Cons q qs)
      obtain n2 j2 where q: "q = (n2, j2)" by (cases q)
      from \<open>jobs = p # ps\<close> Cons p q show ?thesis
        by (simp add: wait_and_report_more)
    qed
  qed
  then show ?thesis by (simp add: wait_and_report_Nil)
qed

subsection \<open>The stage builders\<close>

lemma since_append [simp]: "since w (w0\<lparr>trace := trace w @ evs\<rparr>) = evs"
  by (simp add: since_def)

lemma launched_append: "launched (xs @ ys) = launched xs @ launched ys"
  by (induction xs rule: launched.induct) simp_all


lemma launched_log_events: "launched (log_events X d jobs) = []"
  by (induction jobs) (auto simp: log_events_def)


lemma job_checkout_jobs_eq:
  "job_checkout_jobs repository branch server client enable_nfs w =
     ((''checkout-server-'' @ server,
         \<lparr>pid = next_pid w, args = ssh_cmd server (remote_checkout_cmd repository branch)\<rparr>)
        # (if enable_nfs then []
           else [(''checkout-client-'' @ client,
                  \<lparr>pid = Suc (next_pid w), args = ssh_cmd client (remote_checkout_cmd repository branch)\<rparr>)]),
      w\<lparr>next_pid := (if enable_nfs then Suc (next_pid w) else Suc (Suc (next_pid w))),
        trace := trace w @ Popen (next_pid w) (ssh_cmd server (remote_checkout_cmd repository branch))
                   # (if enable_nfs then []
                      else [Popen (Suc (next_pid w)) (ssh_cmd client (remote_checkout_cmd repository branch))])\<rparr>)"
  by (simp add: job_checkout_jobs_def remote_checkout_def subprocess_Popen_def emit_def Let_def)

lemma job_compile_jobs_eq:
  "job_compile_jobs repository libos is_debug server client enable_nfs w =
     ((compile_name is_debug @ ''-server-'' @ server,
         \<lparr>pid = next_pid w,
          args = ssh_cmd server (remote_compile_cmd repository (''all LIBOS='' @ libos) is_debug)\<rparr>)
        # (if enable_nfs then []
           else [(compile_name is_debug @ ''-client-'' @ client,
                  \<lparr>pid = Suc (next_pid w),
                   args = ssh_cmd client (remote_compile_cmd repository (''all LIBOS='' @ libos) is_debug)\<rparr>)]),
      w\<lparr>next_pid := (if enable_nfs then Suc (next_pid w) else Suc (Suc (next_pid w))),
        trace := trace w
                   @ Popen (next_pid w)
                       (ssh_cmd server (remote_compile_cmd repository (''all LIBOS='' @ libos) is_debug))
                   # (if enable_nfs then []
                      else [Popen (Suc (next_pid w))
                              (ssh_cmd client
                                 (remote_compile_cmd repository (''all LIBOS='' @ libos) is_debug))])\<rparr>)"
  by (simp add: job_compile_jobs_def remote_compile_def subprocess_Popen_def emit_def Let_def)

lemma job_cleanup_jobs_eq:
  "job_cleanup_jobs repository server client is_sudo enable_nfs w =
     ((''cleanup-server-'' @ server,
         \<lparr>pid = next_pid w, args = ssh_cmd server (remote_cleanup_cmd repository is_sudo ''dev'')\<rparr>)
        # (if enable_nfs then []
           else [(''cleanup-client-'' @ client @ ''-'',
                  \<lparr>pid = Suc (next_pid w),
                   args = ssh_cmd client (remote_cleanup_cmd repository is_sudo ''dev'')\<rparr>)]),
      w\<lparr>next_pid := (if enable_nfs then Suc (next_pid w) else Suc (Suc (next_pid w))),
        trace := trace w @ Popen (next_pid w) (ssh_cmd server (remote_cleanup_cmd repository is_sudo ''dev''))
                   # (if enable_nfs then []
                      else [Popen (Suc (next_pid w))
                              (ssh_cmd client (remote_cleanup_cmd repository is_sudo ''dev''))])\<rparr>)"
  by (simp add: job_cleanup_jobs_def remote_cleanup_def subprocess_Popen_def emit_def Let_def)

lemma job_checkout_eq:
  "job_checkout X repository branch server client enable_nfs d w =
     (let s = \<lparr>pid = next_pid w, args = ssh_cmd server (remote_checkout_cmd repository branch)\<rparr>;
          c = \<lparr>pid = Suc (next_pid w), args = ssh_cmd client (remote_checkout_cmd repository branch)\<rparr>;
          jobs = (''checkout-server-'' @ server, s)
                   # (if enable_nfs then [] else [(''checkout-client-'' @ client, c)]);
          passed = (exit_code X s = 0 \<and> (enable_nfs \<or> exit_code X c = 0))
      in (Inr passed,
          w\<lparr>next_pid := next_pid w + length jobs,
            trace := trace w @ map (\<lambda>(k, j). Popen (pid j) (args j)) jobs @ log_events X d jobs
                       @ [Print passed ''checkout'']\<rparr>))"
  by (simp add: job_checkout_def job_checkout_jobs_eq wait_and_report_one wait_and_report_more Let_def)

lemma job_compile_eq:
  "job_compile X repository libos is_debug server client enable_nfs d w =
     (let s = \<lparr>pid = next_pid w,
               args = ssh_cmd server (remote_compile_cmd repository (''all LIBOS='' @ libos) is_debug)\<rparr>;
          c = \<lparr>pid = Suc (next_pid w),
               args = ssh_cmd client (remote_compile_cmd repository (''all LIBOS='' @ libos) is_debug)\<rparr>;
          jobs = (compile_name is_debug @ ''-server-'' @ server, s)
                   # (if enable_nfs then [] else [(compile_name is_debug @ ''-client-'' @ client, c)]);
          passed = (exit_code X s = 0 \<and> (enable_nfs \<or> exit_code X c = 0))
      in (Inr passed,
          w\<lparr>next_pid := next_pid w + length jobs,
            trace := trace w @ map (\<lambda>(k, j). Popen (pid j) (args j)) jobs @ log_events X d jobs
                       @ [Print passed (compile_name is_debug)]\<rparr>))"
  by (simp add: job_compile_def job_compile_jobs_eq wait_and_report_one wait_and_report_more Let_def)

lemma job_cleanup_eq:
  "job_cleanup X repository server client is_sudo enable_nfs d w =
     (let s = \<lparr>pid = next_pid w, args = ssh_cmd server (remote_cleanup_cmd repository is_sudo ''dev'')\<rparr>;
          c = \<lparr>pid = Suc (next_pid w), args = ssh_cmd client (remote_cleanup_cmd repository is_sudo ''dev'')\<rparr>;
          jobs = (''cleanup-server-'' @ server, s)
                   # (if enable_nfs then [] else [(''cleanup-client-'' @ client @ ''-'', c)]);
          passed = (exit_code X s = 0 \<and> (enable_nfs \<or> exit_code X c = 0))
      in (Inr passed,
          w\<lparr>next_pid := next_pid w + length jobs,
            trace := trace w @ map (\<lambda>(k, j). Popen (pid j) (args j)) jobs @ log_events X d jobs
                       @ [Print passed ''cleanup'']\<rparr>))"
  by (simp add: job_cleanup_def job_cleanup_jobs_eq wait_and_report_one wait_and_report_more Let_def)

lemma job_test_unit_rust_eq:
  "job_test_unit_rust X repo libos is_debug server client is_sudo config_path d w =
     (let s = \<lparr>pid = next_pid w,
               args = ssh_cmd server
                        (remote_run_cmd repo is_debug (''test-unit-rust LIBOS='' @ libos) is_sudo config_path)\<rparr>
      in (Inr (exit_code X s = 0),
          w\<lparr>next_pid := Suc (next_pid w),
            trace := trace w @ [Popen (pid s) (args s)]
                       @ log_events X d [(''unit-test-server-'' @ server, s)]
                       @ [Print (exit_code X s = 0) ''unit-test'']\<rparr>))"
  by (simp add: job_test_unit_rust_def remote_run_def subprocess_Popen_def emit_def
      wait_and_report_one Let_def)

lemma job_test_integration_tcp_rust_eq:
  "job_test_integration_tcp_rust X repo libos is_debug server client server_addr client_addr
      is_sudo config_path d w =
     (let s = \<lparr>pid = next_pid w,
               args = ssh_cmd server
                        (remote_run_cmd repo is_debug
                           (tcp_cmd libos (tcp_server_args server_addr client_addr)) is_sudo config_path)\<rparr>;
          c = \<lparr>pid = Suc (next_pid w),
               args = ssh_cmd client
                        (remote_run_cmd repo is_debug
                           (tcp_cmd libos (tcp_client_args server_addr client_addr)) is_sudo config_path)\<rparr>;
          passed = (exit_code X s = 0 \<and> exit_code X c = 0)
      in (Inr passed,
          w\<lparr>next_pid := Suc (Suc (next_pid w)),
            trace := trace w @ [Popen (pid s) (args s), Popen (pid c) (args c)]
                       @ log_events X d [(''integration-test-server-'' @ server, s),
                                         (''integration-test-client-'' @ client, c)]
                       @ [Print passed ''integration-test'']\<rparr>))"
  by (simp add: job_test_integration_tcp_rust_def remote_run_def subprocess_Popen_def emit_def
      wait_and_report_more Let_def)

lemma job_test_integration_pipe_rust_eq:
  "job_test_integration_pipe_rust X repo libos is_debug run_mode server client server_addr delay
      is_sudo config_path d w =
     (let s = \<lparr>pid = next_pid w,
               args = ssh_cmd server
                        (remote_run_cmd repo is_debug (pipe_cmd libos ''server'' server_addr run_mode)
                           is_sudo config_path)\<rparr>;
          c = \<lparr>pid = Suc (next_pid w),
               args = ssh_cmd client
                        (remote_run_cmd repo is_debug (pipe_cmd libos ''client'' server_addr run_mode)
                           is_sudo config_path)\<rparr>;
          name = ''integration-test-'' @ run_mode
      in if run_mode = ''standalone'' then
           (Inr (exit_code X s = 0),
            w\<lparr>next_pid := Suc (next_pid w),
              trace := trace w @ [Popen (pid s) (args s)]
                         @ log_events X d [(name @ ''-server-'' @ server, s)]
                         @ [Print (exit_code X s = 0) name]\<rparr>)
         else
           (case sleep_check X delay of
              Inl e \<Rightarrow>
                (Inl e,
                 w\<lparr>next_pid := Suc (next_pid w), trace := trace w @ [Popen (pid s) (args s)]\<rparr>)
            | Inr secs \<Rightarrow>
                (Inr (exit_code X s = 0 \<and> exit_code X c = 0),
                 w\<lparr>next_pid := Suc (Suc (next_pid w)),
                   trace := trace w @ [Popen (pid s) (args s), Sleep secs, Popen (pid c) (args c)]
                              @ log_events X d [(name @ ''-server-'' @ server, s),
                                                (name @ ''-client-'' @ client, c)]
                              @ [Print (exit_code X s = 0 \<and> exit_code X c = 0) name]\<rparr>)))"
  by (simp add: job_test_integration_pipe_rust_def remote_run_def subprocess_Popen_def emit_def
      time_sleep_def then_do_def wait_and_report_one wait_and_report_more Let_def
      split: sum.splits)

text \<open>The stage that the catalog tests are given as their callback.\<close>

lemma job_test_system_rust_eq:
  "job_test_system_rust X test_alias test_name repo libos is_debug server client server_args
      client_args is_sudo all_pass delay config_path d w =
     (let s = \<lparr>pid = next_pid w,
               args = ssh_cmd server
                        (remote_run_cmd repo is_debug
                           (''test-system-rust LIBOS='' @ libos @ '' TEST='' @ test_name @ '' ''
                              @ quoted_args server_args)
                           is_sudo config_path)\<rparr>;
          c = \<lparr>pid = Suc (next_pid w),
               args = ssh_cmd client
                        (remote_run_cmd repo is_debug
                           (''test-system-rust LIBOS='' @ libos @ '' TEST='' @ test_name @ '' ''
                              @ quoted_args client_args)
                           is_sudo config_path)\<rparr>;
          passed = (if all_pass then exit_code X s = 0 \<and> exit_code X c = 0
                    else exit_code X s = 0 \<or> exit_code X c = 0)
      in case sleep_check X delay of
           Inl e \<Rightarrow>
             (Inl e,
              w\<lparr>next_pid := Suc (next_pid w), trace := trace w @ [Popen (pid s) (args s)]\<rparr>)
         | Inr secs \<Rightarrow>
             (Inr passed,
              w\<lparr>next_pid := Suc (Suc (next_pid w)),
                trace := trace w @ [Popen (pid s) (args s), Sleep secs, Popen (pid c) (args c)]
                           @ log_events X d [(test_alias @ ''-server-'' @ server, s),
                                             (test_alias @ ''-client-'' @ client, c)]
                           @ [Print passed test_alias]\<rparr>))"
  by (simp add: job_test_system_rust_def remote_run_def subprocess_Popen_def emit_def
      time_sleep_def then_do_def wait_and_report_more Let_def split: sum.splits)

text \<open>
  C9. The checkout, compile and cleanup stages always launch the server job, and launch
  the client job iff \<open>enable_nfs\<close> is false: the jobs dictionary holds the server key
  alone with NFS, the server key and the client key without, and the commands started
  by the stage are the server command, followed by the client command iff NFS is off.
\<close>

theorem nfs_job_counts:
  "map fst (fst (job_checkout_jobs repository branch server client enable_nfs w))
     = (''checkout-server-'' @ server) # (if enable_nfs then [] else [''checkout-client-'' @ client])
   \<and> launched (since w (snd (job_checkout X repository branch server client enable_nfs d w)))
     = ssh_cmd server (remote_checkout_cmd repository branch)
         # (if enable_nfs then [] else [ssh_cmd client (remote_checkout_cmd repository branch)])
   \<and> map fst (fst (job_compile_jobs repository libos is_debug server client enable_nfs w))
     = (compile_name is_debug @ ''-server-'' @ server)
         # (if enable_nfs then [] else [compile_name is_debug @ ''-client-'' @ client])
   \<and> launched (since w (snd (job_compile X repository libos is_debug server client enable_nfs d w)))
     = ssh_cmd server (remote_compile_cmd repository (''all LIBOS='' @ libos) is_debug)
         # (if enable_nfs then []
            else [ssh_cmd client (remote_compile_cmd repository (''all LIBOS='' @ libos) is_debug)])
   \<and> map fst (fst (job_cleanup_jobs repository server client is_sudo enable_nfs w))
     = (''cleanup-server-'' @ server)
         # (if enable_nfs then [] else [''cleanup-client-'' @ client @ ''-''])
   \<and> launched (since w (snd (job_cleanup X repository server client is_sudo enable_nfs d w)))
     = ssh_cmd server (remote_cleanup_cmd repository is_sudo ''dev'')
         # (if enable_nfs then [] else [ssh_cmd client (remote_cleanup_cmd repository is_sudo ''dev'')])"
  by (simp add: job_checkout_jobs_eq job_compile_jobs_eq job_cleanup_jobs_eq
      job_checkout_eq job_compile_eq job_cleanup_eq Let_def launched_append launched_log_events)

text \<open>
  C7. The TCP integration stage starts the server command and then the client command,
  with nothing between the two launches; it waits for both under all-must-pass, so its
  verdict is that both exit codes are 0. The server's local address \<open>server_addr:12345\<close>
  is the client's remote address, and the server's remote address \<open>client_addr:23456\<close>
  is the client's local address.
\<close>

theorem tcp_stage:
  "(let s = \<lparr>pid = next_pid w,
              args = ssh_cmd server
                       (remote_run_cmd repo is_debug
                          (tcp_cmd libos
                             (''--local-address '' @ (server_addr @ '':12345'')
                                @ '' --remote-address '' @ (client_addr @ '':23456'')))
                          is_sudo config_path)\<rparr>;
        c = \<lparr>pid = Suc (next_pid w),
              args = ssh_cmd client
                       (remote_run_cmd repo is_debug
                          (tcp_cmd libos
                             (''--local-address '' @ (client_addr @ '':23456'')
                                @ '' --remote-address '' @ (server_addr @ '':12345'')))
                          is_sudo config_path)\<rparr>;
        r = job_test_integration_tcp_rust X repo libos is_debug server client server_addr
              client_addr is_sudo config_path d w
    in fst r = Inr (exit_code X s = 0 \<and> exit_code X c = 0)
       \<and> trace (snd r)
           = trace w @ [Popen (pid s) (args s), Popen (pid c) (args c)]
               @ log_events X d [(''integration-test-server-'' @ server, s),
                                 (''integration-test-client-'' @ client, c)]
               @ [Print (exit_code X s = 0 \<and> exit_code X c = 0) ''integration-test''])"
  by (simp add: job_test_integration_tcp_rust_eq Let_def tcp_server_args_def tcp_client_args_def)

text \<open>
  C5, as amended. The pipe integration stage always starts the server command first. In
  run-mode \<open>standalone\<close> it starts nothing else. In every other run-mode, when the delay
  is a finite number of seconds that is not negative and not too large for the clock of
  \<^verbatim>\<open>time.sleep\<close>, the stage sleeps the delay and then starts exactly one client command.
\<close>

theorem pipe_stage:
  "(let s = \<lparr>pid = next_pid w,
              args = ssh_cmd server
                       (remote_run_cmd repo is_debug (pipe_cmd libos ''server'' server_addr run_mode)
                          is_sudo config_path)\<rparr>;
        c = \<lparr>pid = Suc (next_pid w),
              args = ssh_cmd client
                       (remote_run_cmd repo is_debug (pipe_cmd libos ''client'' server_addr run_mode)
                          is_sudo config_path)\<rparr>;
        name = ''integration-test-'' @ run_mode;
        r = job_test_integration_pipe_rust X repo libos is_debug run_mode server client server_addr
              delay is_sudo config_path d w
    in (\<exists>rest. trace (snd r) = trace w @ Popen (pid s) (args s) # rest)
       \<and> (run_mode = ''standalone'' \<longrightarrow>
            fst r = Inr (exit_code X s = 0)
            \<and> trace (snd r)
                = trace w @ [Popen (pid s) (args s)]
                    @ log_events X d [(name @ ''-server-'' @ server, s)]
                    @ [Print (exit_code X s = 0) name])
       \<and> (\<forall>secs. run_mode \<noteq> ''standalone'' \<and> delay = Finite secs \<and> 0 \<le> secs
                  \<and> \<not> sleep_overflows X secs \<longrightarrow>
            fst r = Inr (exit_code X s = 0 \<and> exit_code X c = 0)
            \<and> trace (snd r)
                = trace w @ [Popen (pid s) (args s), Sleep secs, Popen (pid c) (args c)]
                    @ log_events X d [(name @ ''-server-'' @ server, s),
                                      (name @ ''-client-'' @ client, c)]
                    @ [Print (exit_code X s = 0 \<and> exit_code X c = 0) name]))"
  by (auto simp: job_test_integration_pipe_rust_eq Let_def sleep_check_def split: sum.splits)

theorem pipe_stage_witness:
  "''push-wait'' \<noteq> ''standalone'' \<and> (0::real) \<le> 1 \<and> \<not> sleep_overflows (all_exit 0) 1
   \<and> fst (job_test_integration_pipe_rust (all_exit 0) ''repo'' ''catmem'' False ''push-wait''
            ''srv'' ''cli'' ''10.0.0.1'' (Finite 1) False ''cfg'' ''logs'' start) = Inr True
   \<and> trace (snd (job_test_integration_pipe_rust (all_exit 0) ''repo'' ''catmem'' False ''push-wait''
                   ''srv'' ''cli'' ''10.0.0.1'' (Finite 1) False ''cfg'' ''logs'' start))
      = [Popen 100
           (ssh_cmd ''srv'' (remote_run_cmd ''repo'' False
                              (pipe_cmd ''catmem'' ''server'' ''10.0.0.1'' ''push-wait'') False ''cfg'')),
         Sleep 1,
         Popen 101
           (ssh_cmd ''cli'' (remote_run_cmd ''repo'' False
                              (pipe_cmd ''catmem'' ''client'' ''10.0.0.1'' ''push-wait'') False ''cfg'')),
         WriteFile ''logs/integration-test-push-wait-server-srv.stdout.txt'' [],
         WriteFile ''logs/integration-test-push-wait-server-srv.stderr.txt'' [],
         WriteFile ''logs/integration-test-push-wait-client-cli.stdout.txt'' [],
         WriteFile ''logs/integration-test-push-wait-client-cli.stderr.txt'' [],
         Print True ''integration-test-push-wait'']
   \<and> fst (job_test_integration_pipe_rust (all_exit 0) ''repo'' ''catmem'' False ''standalone''
            ''srv'' ''cli'' ''10.0.0.1'' (Finite 1) False ''cfg'' ''logs'' start) = Inr True
   \<and> trace (snd (job_test_integration_pipe_rust (all_exit 0) ''repo'' ''catmem'' False ''standalone''
                   ''srv'' ''cli'' ''10.0.0.1'' (Finite 1) False ''cfg'' ''logs'' start))
      = [Popen 100
           (ssh_cmd ''srv'' (remote_run_cmd ''repo'' False
                              (pipe_cmd ''catmem'' ''server'' ''10.0.0.1'' ''standalone'') False ''cfg'')),
         WriteFile ''logs/integration-test-standalone-server-srv.stdout.txt'' [],
         WriteFile ''logs/integration-test-standalone-server-srv.stderr.txt'' [],
         Print True ''integration-test-standalone'']"
proof -
  have accepted: "''push-wait'' \<noteq> ''standalone''" "(0::real) \<le> 1"
    "\<not> sleep_overflows (all_exit 0) 1"
    by (simp_all add: all_exit_def clock_overflows_def)
  note two = pipe_stage [where X = "all_exit 0" and repo = "''repo''" and libos = "''catmem''"
      and is_debug = False and run_mode = "''push-wait''" and server = "''srv''"
      and client = "''cli''" and server_addr = "''10.0.0.1''" and delay = "Finite 1"
      and is_sudo = False and config_path = "''cfg''" and d = "''logs''" and w = start,
      unfolded Let_def]
  note one = pipe_stage [where X = "all_exit 0" and repo = "''repo''" and libos = "''catmem''"
      and is_debug = False and run_mode = "''standalone''" and server = "''srv''"
      and client = "''cli''" and server_addr = "''10.0.0.1''" and delay = "Finite 1"
      and is_sudo = False and config_path = "''cfg''" and d = "''logs''" and w = start,
      unfolded Let_def]
  from two accepted have
    "fst (job_test_integration_pipe_rust (all_exit 0) ''repo'' ''catmem'' False ''push-wait''
            ''srv'' ''cli'' ''10.0.0.1'' (Finite 1) False ''cfg'' ''logs'' start) = Inr True"
    "trace (snd (job_test_integration_pipe_rust (all_exit 0) ''repo'' ''catmem'' False ''push-wait''
                   ''srv'' ''cli'' ''10.0.0.1'' (Finite 1) False ''cfg'' ''logs'' start))
      = [Popen 100
           (ssh_cmd ''srv'' (remote_run_cmd ''repo'' False
                              (pipe_cmd ''catmem'' ''server'' ''10.0.0.1'' ''push-wait'') False ''cfg'')),
         Sleep 1,
         Popen 101
           (ssh_cmd ''cli'' (remote_run_cmd ''repo'' False
                              (pipe_cmd ''catmem'' ''client'' ''10.0.0.1'' ''push-wait'') False ''cfg'')),
         WriteFile ''logs/integration-test-push-wait-server-srv.stdout.txt'' [],
         WriteFile ''logs/integration-test-push-wait-server-srv.stderr.txt'' [],
         WriteFile ''logs/integration-test-push-wait-client-cli.stdout.txt'' [],
         WriteFile ''logs/integration-test-push-wait-client-cli.stderr.txt'' [],
         Print True ''integration-test-push-wait'']"
    by (simp_all add: start_def exit_code_def all_exit_def log_events_def)
  moreover from one have
    "fst (job_test_integration_pipe_rust (all_exit 0) ''repo'' ''catmem'' False ''standalone''
            ''srv'' ''cli'' ''10.0.0.1'' (Finite 1) False ''cfg'' ''logs'' start) = Inr True"
    "trace (snd (job_test_integration_pipe_rust (all_exit 0) ''repo'' ''catmem'' False ''standalone''
                   ''srv'' ''cli'' ''10.0.0.1'' (Finite 1) False ''cfg'' ''logs'' start))
      = [Popen 100
           (ssh_cmd ''srv'' (remote_run_cmd ''repo'' False
                              (pipe_cmd ''catmem'' ''server'' ''10.0.0.1'' ''standalone'') False ''cfg'')),
         WriteFile ''logs/integration-test-standalone-server-srv.stdout.txt'' [],
         WriteFile ''logs/integration-test-standalone-server-srv.stderr.txt'' [],
         Print True ''integration-test-standalone'']"
    by (simp_all add: start_def exit_code_def all_exit_def log_events_def)
  ultimately show ?thesis using accepted by simp
qed

text \<open>
  C5 as stated fails for delays that are not negative: with \<^verbatim>\<open>--delay inf\<close>, and with
  \<^verbatim>\<open>--delay 1e10\<close> on a clock of 64 bits of nanoseconds, \<^verbatim>\<open>time.sleep\<close> raises
  \<^verbatim>\<open>OverflowError\<close>. In run-mode \<open>push-wait\<close> the launch of the server command is then all
  that has happened: no client command is started.
\<close>

theorem pipe_stage_overflowing_delay:
  "''push-wait'' \<noteq> ''standalone''
   \<and> fst (job_test_integration_pipe_rust (all_exit 0) ''repo'' ''catmem'' False ''push-wait''
            ''srv'' ''cli'' ''10.0.0.1'' PosInf False ''cfg'' ''logs'' start) = Inl OverflowError
   \<and> trace (snd (job_test_integration_pipe_rust (all_exit 0) ''repo'' ''catmem'' False ''push-wait''
                   ''srv'' ''cli'' ''10.0.0.1'' PosInf False ''cfg'' ''logs'' start))
      = [Popen 100
           (ssh_cmd ''srv'' (remote_run_cmd ''repo'' False
                              (pipe_cmd ''catmem'' ''server'' ''10.0.0.1'' ''push-wait'') False ''cfg''))]
   \<and> (0::real) \<le> 10000000000
   \<and> fst (job_test_integration_pipe_rust (all_exit 0) ''repo'' ''catmem'' False ''push-wait''
            ''srv'' ''cli'' ''10.0.0.1'' (Finite 10000000000) False ''cfg'' ''logs'' start)
      = Inl OverflowError
   \<and> trace (snd (job_test_integration_pipe_rust (all_exit 0) ''repo'' ''catmem'' False ''push-wait''
                   ''srv'' ''cli'' ''10.0.0.1'' (Finite 10000000000) False ''cfg'' ''logs'' start))
      = [Popen 100
           (ssh_cmd ''srv'' (remote_run_cmd ''repo'' False
                              (pipe_cmd ''catmem'' ''server'' ''10.0.0.1'' ''push-wait'') False ''cfg''))]"
  by (simp add: job_test_integration_pipe_rust_eq Let_def start_def sleep_check_def all_exit_def
      clock_overflows_def)

subsection \<open>The pipeline\<close>

lemma then_do_Inr:
  "then_do m f = (Inr y, w1) \<Longrightarrow> \<exists>a w0. m = (Inr a, w0) \<and> f a w0 = (Inr y, w1)"
  by (auto simp: then_do_def split: prod.splits sum.splits)

lemma then_do_Inr_eq [simp]: "then_do (Inr a, w) f = f a w"
  by (simp add: then_do_def)

lemma then_do_Inl_eq [simp]: "then_do (Inl e, w) f = (Inl e, w)"
  by (simp add: then_do_def)

lemma job_checkout_returns:
  "\<exists>b w1. job_checkout X repository branch server client enable_nfs d w = (Inr b, w1)"
  by (simp add: job_checkout_eq Let_def)

lemma job_compile_returns:
  "\<exists>b w1. job_compile X repository libos is_debug server client enable_nfs d w = (Inr b, w1)"
  by (simp add: job_compile_eq Let_def)

lemma job_cleanup_returns:
  "\<exists>b w1. job_cleanup X repository server client is_sudo enable_nfs d w = (Inr b, w1)"
  by (simp add: job_cleanup_eq Let_def)

lemma stages_Inr:
  assumes "then_do (job_checkout X repository branch server client enable_nfs d w0)
           (\<lambda>b w1. let status = AList.update ''checkout'' b [] in
         then_do (run_pipeline_step2 X repository libos is_debug server client enable_nfs d status w1)
           (\<lambda>status w2.
         then_do (run_pipeline_step3 X repository libos is_debug server client test_unit
                    server_addr client_addr delay is_sudo config_path d status w2)
           (\<lambda>status w3.
         then_do (run_pipeline_step4 X repository libos is_debug server client test_system
                    server_addr client_addr delay is_sudo config_path d status w3)
           (\<lambda>status w4.
         then_do (job_cleanup X repository server client is_sudo enable_nfs d w4)
           (\<lambda>b w5. (Inr (AList.update ''cleanup'' b status), w5)))))) = (Inr status, w5)"
  obtains b0 w1 st2 w2 st3 w3 st4 w4 bc where
    "job_checkout X repository branch server client enable_nfs d w0 = (Inr b0, w1)"
    "run_pipeline_step2 X repository libos is_debug server client enable_nfs d [(''checkout'', b0)] w1
       = (Inr st2, w2)"
    "run_pipeline_step3 X repository libos is_debug server client test_unit server_addr client_addr
       delay is_sudo config_path d st2 w2 = (Inr st3, w3)"
    "run_pipeline_step4 X repository libos is_debug server client test_system server_addr client_addr
       delay is_sudo config_path d st3 w3 = (Inr st4, w4)"
    "job_cleanup X repository server client is_sudo enable_nfs d w4 = (Inr bc, w5)"
    "status = AList.update ''cleanup'' bc st4"
  using assms by (auto simp: Let_def dest!: then_do_Inr)

lemma run_pipeline_Inr:
  assumes "run_pipeline X repository branch libos is_debug server client test_unit test_system
             server_addr client_addr delay config_path output_dir enable_nfs w = (Inr status, w5)"
    and "is_sudo = (libos = ''catnip'' \<or> libos = ''catpowder'' \<or> libos = ''catloop'')"
    and "d = log_directory_name output_dir libos branch is_debug"
  obtains b0 w1 st2 w2 st3 w3 st4 w4 bc where
    "job_checkout X repository branch server client enable_nfs d (make_log_directory X d w)
       = (Inr b0, w1)"
    "run_pipeline_step2 X repository libos is_debug server client enable_nfs d [(''checkout'', b0)] w1
       = (Inr st2, w2)"
    "run_pipeline_step3 X repository libos is_debug server client test_unit server_addr client_addr
       delay is_sudo config_path d st2 w2 = (Inr st3, w3)"
    "run_pipeline_step4 X repository libos is_debug server client test_system server_addr client_addr
       delay is_sudo config_path d st3 w3 = (Inr st4, w4)"
    "job_cleanup X repository server client is_sudo enable_nfs d w4 = (Inr bc, w5)"
    "status = AList.update ''cleanup'' bc st4"
  using assms(1) unfolding run_pipeline_def Let_def assms(2,3) [symmetric]
  by (rule stages_Inr [unfolded Let_def])


lemma run_pipeline_step3_skip:
  "checkout_and_compile st = Inr False \<Longrightarrow>
   run_pipeline_step3 X repository libos is_debug server client test_unit server_addr client_addr
     delay is_sudo config_path d st w = (Inr st, w)"
  by (simp add: run_pipeline_step3_def)

lemma run_pipeline_step4_skip:
  "checkout_and_compile st = Inr False \<Longrightarrow>
   run_pipeline_step4 X repository libos is_debug server client test_system server_addr client_addr
     delay is_sudo config_path d st w = (Inr st, w)"
  by (simp add: run_pipeline_step4_def split: option.splits)

text \<open>
  C2. When the checkout stage records false, the run returns the status mapping that
  holds \<open>checkout\<close> (false) and \<open>cleanup\<close> and nothing else: no \<open>compile\<close>, no
  \<open>unit_tests\<close>, no \<open>integration_tests\<close> and no key of a system test. Every status
  mapping that a run returns holds the key \<open>cleanup\<close>.
\<close>

theorem checkout_gate:
  "(fst (job_checkout X repository branch server client enable_nfs
           (log_directory_name output_dir libos branch is_debug)
           (make_log_directory X (log_directory_name output_dir libos branch is_debug) w))
      = Inr False
    \<longrightarrow> (\<exists>c w1. run_pipeline X repository branch libos is_debug server client test_unit test_system
                   server_addr client_addr delay config_path output_dir enable_nfs w
                 = (Inr [(''checkout'', False), (''cleanup'', c)], w1)))
   \<and> (\<forall>status w1.
        run_pipeline X repository branch libos is_debug server client test_unit test_system
          server_addr client_addr delay config_path output_dir enable_nfs w = (Inr status, w1)
        \<longrightarrow> ''cleanup'' \<in> set (map fst status))"
proof (intro conjI impI allI)
  let ?d = "log_directory_name output_dir libos branch is_debug"
  let ?sudo = "libos = ''catnip'' \<or> libos = ''catpowder'' \<or> libos = ''catloop''"
  assume failed: "fst (job_checkout X repository branch server client enable_nfs ?d
                         (make_log_directory X ?d w)) = Inr False"
  obtain b w1 where co: "job_checkout X repository branch server client enable_nfs ?d
                         (make_log_directory X ?d w) = (Inr b, w1)"
    using job_checkout_returns by blast
  with failed have b: "b = False" by simp
  obtain c w2 where cl: "job_cleanup X repository server client ?sudo enable_nfs ?d w1 = (Inr c, w2)"
    using job_cleanup_returns by blast
  have gate: "checkout_and_compile [(''checkout'', False)] = Inr False"
    by (simp add: checkout_and_compile_def getitem_def)
  have "run_pipeline X repository branch libos is_debug server client test_unit test_system
          server_addr client_addr delay config_path output_dir enable_nfs w
        = (Inr [(''checkout'', False), (''cleanup'', c)], w2)"
    unfolding run_pipeline_def Let_def
    by (simp add: co b run_pipeline_step2_def getitem_def
        run_pipeline_step3_skip [OF gate] run_pipeline_step4_skip [OF gate] cl)
  then show "\<exists>c w1. run_pipeline X repository branch libos is_debug server client test_unit
                 test_system server_addr client_addr delay config_path output_dir enable_nfs w
               = (Inr [(''checkout'', False), (''cleanup'', c)], w1)"
    by blast
next
  fix status w1
  assume "run_pipeline X repository branch libos is_debug server client test_unit test_system
            server_addr client_addr delay config_path output_dir enable_nfs w = (Inr status, w1)"
  then obtain bc st4 where "status = AList.update ''cleanup'' bc st4"
    by (rule run_pipeline_Inr) (rule refl)+
  then show "''cleanup'' \<in> set (map fst status)"
    by (simp add: dom_update)
qed

theorem checkout_gate_witness:
  "fst (job_checkout (fails_at 100) ''repo'' ''main'' ''srv'' ''cli'' False
          (log_directory_name ''out'' ''catnap'' ''main'' False)
          (make_log_directory (fails_at 100) (log_directory_name ''out'' ''catnap'' ''main'' False) start))
     = Inr False
   \<and> (\<exists>c w1. run_pipeline (fails_at 100) ''repo'' ''main'' ''catnap'' False ''srv'' ''cli'' True
                (Some ''all'') ''10.0.0.1'' ''10.0.0.2'' (Finite 1) ''cfg'' ''out'' False start
              = (Inr [(''checkout'', False), (''cleanup'', c)], w1))
   \<and> ''cleanup'' \<in> set (map fst [(''checkout'', False), (''cleanup'', True)])"
proof -
  have failed: "fst (job_checkout (fails_at 100) ''repo'' ''main'' ''srv'' ''cli'' False
          (log_directory_name ''out'' ''catnap'' ''main'' False)
          (make_log_directory (fails_at 100) (log_directory_name ''out'' ''catnap'' ''main'' False) start))
     = Inr False"
    by (simp add: job_checkout_eq Let_def exit_code_def fails_at_def make_log_directory_def
        emit_def start_def)
  with checkout_gate [of "fails_at 100" "''repo''" "''main''" "''srv''" "''cli''" False "''out''"
      "''catnap''" False start True "Some ''all''" "''10.0.0.1''" "''10.0.0.2''" "Finite 1" "''cfg''"]
  show ?thesis by simp
qed


text \<open>
  C3. When the run returns a status mapping, the program ends through \<^verbatim>\<open>sys.exit\<close>:
  with 0 iff no recorded value is false, and with \<open>-1\<close> (a non-zero exit status) iff
  some recorded value is false.
\<close>

theorem exit_code_of_run:
  assumes "fst (run_pipeline X (arg_repository a) (arg_branch a) (arg_libos a) (arg_debug a)
                  (arg_server a) (arg_client a) (arg_test_unit a) (arg_test_system a)
                  (arg_server_addr a) (arg_client_addr a) (arg_delay a) (arg_config_path a)
                  (arg_output_dir a) (arg_enable_nfs a) w) = Inr status"
  shows "\<exists>n. fst (main X a w) = Inr n
             \<and> (n = 0) = (False \<notin> snd ` set status)
             \<and> (n = - 1) = (False \<in> snd ` set status)"
  using assms by (auto simp: main_def then_do_def split: prod.splits sum.splits)

lemma passing_run:
  "fst (run_pipeline (all_exit 0) ''repo'' ''main'' ''catnap'' False ''srv'' ''cli'' False None
          ''10.0.0.1'' ''10.0.0.2'' (Finite 1) ''cfg'' ''out'' False start)
     = Inr [(''checkout'', True), (''compile'', True), (''cleanup'', True)]"
  by (simp add: run_pipeline_def Let_def run_pipeline_step2_def run_pipeline_step3_def
      run_pipeline_step4_def getitem_def job_checkout_eq job_compile_eq job_cleanup_eq
      exit_code_def all_exit_def)

lemma failing_run:
  "fst (run_pipeline (fails_at 100) ''repo'' ''main'' ''catnap'' False ''srv'' ''cli'' False None
          ''10.0.0.1'' ''10.0.0.2'' (Finite 1) ''cfg'' ''out'' False start)
     = Inr [(''checkout'', False), (''cleanup'', True)]"
  by (simp add: run_pipeline_def Let_def run_pipeline_step2_def run_pipeline_step3_def
      run_pipeline_step4_def getitem_def job_checkout_eq job_compile_eq job_cleanup_eq
      exit_code_def fails_at_def make_log_directory_def emit_def start_def)

theorem exit_code_of_run_witness:
  "fst (run_pipeline (all_exit 0) ''repo'' ''main'' ''catnap'' False ''srv'' ''cli'' False None
          ''10.0.0.1'' ''10.0.0.2'' (Finite 1) ''cfg'' ''out'' False start)
     = Inr [(''checkout'', True), (''compile'', True), (''cleanup'', True)]
   \<and> fst (main (all_exit 0) example_args start) = Inr 0
   \<and> fst (run_pipeline (fails_at 100) ''repo'' ''main'' ''catnap'' False ''srv'' ''cli'' False None
          ''10.0.0.1'' ''10.0.0.2'' (Finite 1) ''cfg'' ''out'' False start)
     = Inr [(''checkout'', False), (''cleanup'', True)]
   \<and> fst (main (fails_at 100) example_args start) = Inr (- 1)"
proof -
  have args: "arg_repository example_args = ''repo''" "arg_branch example_args = ''main''"
    "arg_libos example_args = ''catnap''" "arg_debug example_args = False"
    "arg_server example_args = ''srv''" "arg_client example_args = ''cli''"
    "arg_test_unit example_args = False" "arg_test_system example_args = None"
    "arg_server_addr example_args = ''10.0.0.1''" "arg_client_addr example_args = ''10.0.0.2''"
    "arg_delay example_args = Finite 1" "arg_config_path example_args = ''cfg''"
    "arg_output_dir example_args = ''out''" "arg_enable_nfs example_args = False"
    by (simp_all add: example_args_def)
  from exit_code_of_run [of "all_exit 0" example_args start, unfolded args, OF passing_run]
  have ok: "fst (main (all_exit 0) example_args start) = Inr 0" by auto
  from exit_code_of_run [of "fails_at 100" example_args start, unfolded args, OF failing_run]
  have bad: "fst (main (fails_at 100) example_args start) = Inr (- 1)" by auto
  from ok bad passing_run failing_run show ?thesis by simp
qed

subsection \<open>Traces of the stages\<close>

















subsection \<open>The five pipe runs\<close>


lemmas run_simps =
  run_pipeline_def run_pipeline_step2_def run_pipeline_step3_def run_pipeline_step4_def
  checkout_and_compile_def getitem_def make_log_directory_def emit_def Let_def
  job_checkout_eq job_compile_eq job_cleanup_eq job_test_unit_rust_eq
  job_test_integration_tcp_rust_eq job_test_integration_pipe_rust_eq exit_code_def
  sleep_check_def clock_overflows_def





subsection \<open>Elevation\<close>

lemma launches_only_refl: "launches_only P w w"
  by (simp add: launches_only_def)

lemma launches_only_trans:
  "launches_only P w w1 \<Longrightarrow> launches_only P w1 w2 \<Longrightarrow> launches_only P w w2"
  by (auto simp: launches_only_def launched_append)

lemma launches_only_then_do:
  assumes "launches_only P w (snd m)"
    and "\<And>a w0. launches_only P w0 (snd (f a w0))"
  shows "launches_only P w (snd (then_do m f))"
proof (cases m)
  case (Pair r w0)
  show ?thesis
  proof (cases r)
    case (Inl e)
    with Pair assms(1) show ?thesis by simp
  next
    case (Inr a)
    with Pair assms(1) assms(2) [of w0 a] show ?thesis
      by (auto intro: launches_only_trans)
  qed
qed

lemma launches_only_since:
  "launches_only P w w1 \<Longrightarrow> list_all P (launched (since w w1))"
  by (auto simp: launches_only_def since_def)

lemma make_log_directory_launches: "launches_only P w (make_log_directory X d w)"
  by (simp add: launches_only_def make_log_directory_def emit_def Let_def)

lemmas launch_simps =
  launches_only_def Let_def launched_append launched_log_events expected_command_def

lemma job_checkout_launches:
  "launches_only (expected_command repository branch libos is_debug config_path is_sudo) w
     (snd (job_checkout X repository branch server client enable_nfs d w))"
  by (auto simp: job_checkout_eq launch_simps)

lemma job_compile_launches:
  "launches_only (expected_command repository branch libos is_debug config_path is_sudo) w
     (snd (job_compile X repository libos is_debug server client enable_nfs d w))"
  by (auto simp: job_compile_eq launch_simps)

lemma job_cleanup_launches:
  "launches_only (expected_command repository branch libos is_debug config_path is_sudo) w
     (snd (job_cleanup X repository server client is_sudo enable_nfs d w))"
  by (auto simp: job_cleanup_eq launch_simps)

lemma job_test_unit_rust_launches:
  "launches_only (expected_command repository branch libos is_debug config_path is_sudo) w
     (snd (job_test_unit_rust X repository libos is_debug server client is_sudo config_path d w))"
  by (auto simp: job_test_unit_rust_eq launch_simps)

lemma job_test_integration_tcp_rust_launches:
  "launches_only (expected_command repository branch libos is_debug config_path is_sudo) w
     (snd (job_test_integration_tcp_rust X repository libos is_debug server client server_addr
             client_addr is_sudo config_path d w))"
  by (auto simp: job_test_integration_tcp_rust_eq launch_simps)

lemma job_test_integration_pipe_rust_launches:
  "launches_only (expected_command repository branch libos is_debug config_path is_sudo) w
     (snd (job_test_integration_pipe_rust X repository libos is_debug run_mode server client
             server_addr delay is_sudo config_path d w))"
  by (auto simp: job_test_integration_pipe_rust_eq launch_simps split: sum.splits)

lemma run_tests_launches: "launches_only P w (snd (run_tests X sc names status w))"
proof (induction names arbitrary: status w)
  case Nil
  show ?case by (simp add: launches_only_refl)
next
  case (Cons n names)
  have step: "launches_only P w (emit (Execute n) w)"
    by (simp add: launches_only_def emit_def)
  show ?case
  proof (cases "execute X sc n w")
    case (Inl e)
    with step show ?thesis by simp
  next
    case (Inr b)
    with launches_only_trans [OF step Cons.IH] show ?thesis by simp
  qed
qed


lemma run_pipeline_step2_launches:
  "launches_only (expected_command repository branch libos is_debug config_path is_sudo) w
     (snd (run_pipeline_step2 X repository libos is_debug server client enable_nfs d status w))"
proof (cases "getitem status ''checkout''")
  case (Inl e)
  then show ?thesis by (simp add: run_pipeline_step2_def launches_only_refl)
next
  case (Inr c)
  show ?thesis
  proof (cases c)
    case True
    with Inr show ?thesis
      by (simp add: run_pipeline_step2_def)
        (intro launches_only_then_do job_compile_launches, simp add: launches_only_refl)
  next
    case False
    with Inr show ?thesis by (simp add: run_pipeline_step2_def launches_only_refl)
  qed
qed

lemma run_pipeline_step3_launches:
  "launches_only (expected_command repository branch libos is_debug config_path is_sudo) w
     (snd (run_pipeline_step3 X repository libos is_debug server client test_unit server_addr
             client_addr delay is_sudo config_path d status w))"
proof (cases "test_unit \<and> checkout_and_compile status = Inr True")
  case False
  then show ?thesis
    by (cases "checkout_and_compile status")
      (auto simp: run_pipeline_step3_def launches_only_refl)
next
  case True
  then have unfolded: "run_pipeline_step3 X repository libos is_debug server client test_unit
      server_addr client_addr delay is_sudo config_path d status w
    = then_do (job_test_unit_rust X repository libos is_debug server client is_sudo
                          config_path d w)
                 (\<lambda>b w1.
                   let status = AList.update ''unit_tests'' b status
                   in if libos = ''catnap'' then
                        then_do (job_test_integration_tcp_rust X repository libos is_debug server
                                   client server_addr client_addr is_sudo config_path d w1)
                          (\<lambda>b w2. (Inr (AList.update ''integration_tests'' b status), w2))
                      else if libos = ''catmem'' then
                        then_do (job_test_integration_pipe_rust X repository libos is_debug
                                   ''standalone'' server client server_addr delay is_sudo
                                   config_path d w1)
                          (\<lambda>b w2. let status = AList.update ''integration_tests'' b status in
                        then_do (job_test_integration_pipe_rust X repository libos is_debug
                                   ''push-wait'' server client server_addr delay is_sudo
                                   config_path d w2)
                          (\<lambda>b w3. let status = AList.update ''integration_tests'' b status in
                        then_do (job_test_integration_pipe_rust X repository libos is_debug
                                   ''pop-wait'' server client server_addr delay is_sudo
                                   config_path d w3)
                          (\<lambda>b w4. let status = AList.update ''integration_tests'' b status in
                        then_do (job_test_integration_pipe_rust X repository libos is_debug
                                   ''push-wait-async'' server client server_addr delay is_sudo
                                   config_path d w4)
                          (\<lambda>b w5. let status = AList.update ''integration_tests'' b status in
                        then_do (job_test_integration_pipe_rust X repository libos is_debug
                                   ''pop-wait-async'' server client server_addr delay is_sudo
                                   config_path d w5)
                          (\<lambda>b w6. (Inr (AList.update ''integration_tests'' b status), w6))))))
                      else (Inr status, w1))"
    by (simp add: run_pipeline_step3_def)
  show ?thesis
    unfolding unfolded Let_def
    by (intro launches_only_then_do job_test_unit_rust_launches)
      (auto intro!: launches_only_then_do job_test_integration_tcp_rust_launches
         job_test_integration_pipe_rust_launches launches_only_refl)
qed

lemma run_pipeline_step4_launches:
  "launches_only P w
     (snd (run_pipeline_step4 X repository libos is_debug server client test_system server_addr
             client_addr delay is_sudo config_path d status w))"
  by (auto simp: run_pipeline_step4_def Let_def launches_only_refl run_tests_launches
      simp del: run_tests.simps split: option.splits sum.splits)

lemma stages_launches:
  "launches_only (expected_command repository branch libos is_debug config_path is_sudo) w0
     (snd (then_do (job_checkout X repository branch server client enable_nfs d w0)
           (\<lambda>b w1.
         then_do (run_pipeline_step2 X repository libos is_debug server client enable_nfs d
                    (AList.update ''checkout'' b []) w1)
           (\<lambda>status w2.
         then_do (run_pipeline_step3 X repository libos is_debug server client test_unit
                    server_addr client_addr delay is_sudo config_path d status w2)
           (\<lambda>status w3.
         then_do (run_pipeline_step4 X repository libos is_debug server client test_system
                    server_addr client_addr delay is_sudo config_path d status w3)
           (\<lambda>status w4.
         then_do (job_cleanup X repository server client is_sudo enable_nfs d w4)
           (\<lambda>b w5. (Inr (AList.update ''cleanup'' b status), w5))))))))"
  by (intro launches_only_then_do job_checkout_launches run_pipeline_step2_launches
      run_pipeline_step3_launches run_pipeline_step4_launches job_cleanup_launches)
    (simp add: launches_only_refl)

lemma run_pipeline_launches:
  "launches_only
     (expected_command repository branch libos is_debug config_path
        (libos = ''catnip'' \<or> libos = ''catpowder'' \<or> libos = ''catloop''))
     w
     (snd (run_pipeline X repository branch libos is_debug server client test_unit test_system
             server_addr client_addr delay config_path output_dir enable_nfs w))"
  unfolding run_pipeline_def Let_def
  by (rule launches_only_trans [OF make_log_directory_launches stages_launches])

text \<open>
  C8. Every command that the stages of a run start is a checkout command, a compile
  command, a run command or a cleanup command; the run commands and the cleanup commands
  have \<^verbatim>\<open>sudo -E\<close> in front of \<^verbatim>\<open>make\<close> when the libos is \<^verbatim>\<open>catnip\<close>, \<^verbatim>\<open>catpowder\<close> or
  \<^verbatim>\<open>catloop\<close>, and nothing there for every other libos.
\<close>

theorem elevation_rule:
  "\<forall>c \<in> set (launched (since w
        (snd (run_pipeline X repository branch libos is_debug server client test_unit test_system
                server_addr client_addr delay config_path output_dir enable_nfs w)))).
     (\<exists>host. c = ssh_cmd host (remote_checkout_cmd repository branch))
     \<or> (\<exists>host. c = ssh_cmd host (remote_compile_cmd repository (''all LIBOS='' @ libos) is_debug))
     \<or> (\<exists>host target.
          c = ssh_cmd host
                (''cd '' @ repository @ '' && ''
                   @ (if libos \<in> {''catnip'', ''catpowder'', ''catloop''} then ''sudo -E'' else [])
                   @ '' make CONFIG_PATH='' @ config_path @ '' '' @ debug_flag is_debug @ '' ''
                   @ target))
     \<or> (\<exists>host.
          c = ssh_cmd host
                (''cd '' @ repository @ '' && ''
                   @ (if libos \<in> {''catnip'', ''catpowder'', ''catloop''} then ''sudo -E'' else [])
                   @ '' make clean && git checkout dev && git clean -fdx''))"
proof
  fix c
  assume "c \<in> set (launched (since w
        (snd (run_pipeline X repository branch libos is_debug server client test_unit test_system
                server_addr client_addr delay config_path output_dir enable_nfs w))))"
  with launches_only_since [OF run_pipeline_launches]
  have "expected_command repository branch libos is_debug config_path
          (libos = ''catnip'' \<or> libos = ''catpowder'' \<or> libos = ''catloop'') c"
    by (simp add: list_all_iff)
  then show "(\<exists>host. c = ssh_cmd host (remote_checkout_cmd repository branch))
     \<or> (\<exists>host. c = ssh_cmd host (remote_compile_cmd repository (''all LIBOS='' @ libos) is_debug))
     \<or> (\<exists>host target.
          c = ssh_cmd host
                (''cd '' @ repository @ '' && ''
                   @ (if libos \<in> {''catnip'', ''catpowder'', ''catloop''} then ''sudo -E'' else [])
                   @ '' make CONFIG_PATH='' @ config_path @ '' '' @ debug_flag is_debug @ '' ''
                   @ target))
     \<or> (\<exists>host.
          c = ssh_cmd host
                (''cd '' @ repository @ '' && ''
                   @ (if libos \<in> {''catnip'', ''catpowder'', ''catloop''} then ''sudo -E'' else [])
                   @ '' make clean && git checkout dev && git clean -fdx''))"
    unfolding expected_command_def remote_run_cmd_def remote_cleanup_cmd_def sudo_cmd_def
    by (elim disjE exE) (simp_all, blast+)
qed

lemma catnip_run_launched:
  "launched (since start (snd catnip_run))
     = [ssh_cmd ''srv'' (remote_checkout_cmd ''repo'' ''main''),
        ssh_cmd ''srv'' (remote_compile_cmd ''repo'' ''all LIBOS=catnip'' False),
        ssh_cmd ''srv'' (remote_run_cmd ''repo'' False ''test-unit-rust LIBOS=catnip'' True ''cfg''),
        ssh_cmd ''srv'' (remote_cleanup_cmd ''repo'' True ''dev'')]"
  by (simp add: catnip_run_def run_simps all_exit_def start_def since_def launched_append
      launched_log_events)

theorem elevation_rule_witness:
  "ssh_cmd ''srv'' (remote_cleanup_cmd ''repo'' True ''dev'')
     \<in> set (launched (since start (snd catnip_run)))
   \<and> ((\<exists>host. ssh_cmd ''srv'' (remote_cleanup_cmd ''repo'' True ''dev'')
                 = ssh_cmd host (remote_checkout_cmd ''repo'' ''main''))
      \<or> (\<exists>host. ssh_cmd ''srv'' (remote_cleanup_cmd ''repo'' True ''dev'')
                 = ssh_cmd host (remote_compile_cmd ''repo'' (''all LIBOS='' @ ''catnip'') False))
      \<or> (\<exists>host target.
            ssh_cmd ''srv'' (remote_cleanup_cmd ''repo'' True ''dev'')
              = ssh_cmd host
                  (''cd '' @ ''repo'' @ '' && ''
                     @ (if ''catnip'' \<in> {''catnip'', ''catpowder'', ''catloop''} then ''sudo -E''
                        else [])
                     @ '' make CONFIG_PATH='' @ ''cfg'' @ '' '' @ debug_flag False @ '' '' @ target))
      \<or> (\<exists>host.
            ssh_cmd ''srv'' (remote_cleanup_cmd ''repo'' True ''dev'')
              = ssh_cmd host
                  (''cd '' @ ''repo'' @ '' && ''
                     @ (if ''catnip'' \<in> {''catnip'', ''catpowder'', ''catloop''} then ''sudo -E''
                        else [])
                     @ '' make clean && git checkout dev && git clean -fdx'')))"
proof -
  have member: "ssh_cmd ''srv'' (remote_cleanup_cmd ''repo'' True ''dev'')
                  \<in> set (launched (since start (snd catnip_run)))"
    by (simp add: catnip_run_launched)
  from elevation_rule [of start "all_exit 0" "''repo''" "''main''" "''catnip''" False "''srv''"
      "''cli''" True None "''10.0.0.1''" "''10.0.0.2''" "Finite 1" "''cfg''" "''out''" True,
      folded catnip_run_def, rule_format, OF member] member
  show ?thesis by blast
qed

end
